theory Spec2Isabelle
  imports Complex_Main "HOL-Library.AList"
begin

section \<open>Data model\<close>

text \<open>
  A user id is whatever JavaScript value the caller hands over: the scheduler passes the
  numeric \<^verbatim>\<open>user.id\<close> of \<^verbatim>\<open>users.json\<close>, the HTTP layer passes the \<^verbatim>\<open>userId\<close> of a
  JSON body (a number or a string). The two are different keys of a \<^verbatim>\<open>Map\<close> and
  different under \<^verbatim>\<open>===\<close>. Numeric ids are integers. Ids that are neither a number
  nor a string are treated apart, in the section on other ids.
\<close>

datatype userId = UNum int | UStr string

record keys =
  p256dh :: string
  auth :: string

record subscription =
  endpoint :: string
  keys :: keys

text \<open>
  \<^verbatim>\<open>this.subscriptions\<close> is a \<^verbatim>\<open>Map\<close> from user id to an array of subscriptions. A
  \<^verbatim>\<open>Map\<close> keeps its keys in insertion order, and that order decides which entry wins
  when the map is turned into an object, so it is an association list.
\<close>

type_synonym registry = "(userId \<times> subscription list) list"

definition Map_has :: "registry \<Rightarrow> userId \<Rightarrow> bool" where
  "Map_has m k = (map_of m k \<noteq> None)"

definition Map_get :: "registry \<Rightarrow> userId \<Rightarrow> subscription list option" where
  "Map_get m k = map_of m k"

definition Map_set :: "registry \<Rightarrow> userId \<Rightarrow> subscription list \<Rightarrow> registry" where
  "Map_set m k v = AList.update k v m"

definition Map_delete :: "registry \<Rightarrow> userId \<Rightarrow> registry" where
  "Map_delete m k = AList.delete k m"

text \<open>
  The snapshot file \<^verbatim>\<open>webpush-subscriptions.json\<close> holds one JSON object; its
  properties are kept as a list of (name, value) in the order they are enumerated.
  \<^verbatim>\<open>JSON.parse (JSON.stringify x)\<close> gives back an equal value when \<^verbatim>\<open>x\<close> is built of
  strings, arrays and plain objects, as a subscription is, so the file is modelled by
  the object it denotes rather than by its text.
\<close>

type_synonym json_object = "(string \<times> subscription list) list"

text \<open>
  The state of the push service: its map, the snapshot file on disk (\<open>None\<close> while no
  readable file exists), and two counters that only record what happened: the calls
  made to \<^verbatim>\<open>webpush.sendNotification\<close>, in order, and the number of calls made to
  \<^verbatim>\<open>fs.writeFile\<close> for the snapshot.
\<close>

record wps =
  subscriptions :: registry
  snapshot_file :: "json_object option"
  attempts :: "subscription list"
  writes :: nat

text \<open>
  What \<^verbatim>\<open>webpush.sendNotification\<close> does: it resolves, or it rejects with an error that
  carries a message and, for a protocol failure, a status code.
\<close>

datatype push_result = Delivered | Rejected "int option" string

section \<open>JavaScript numbers and exceptions\<close>

text \<open>
  A thrown JavaScript error, with its message.
\<close>

datatype exn = TypeError string | Error string

fun error_message :: "exn \<Rightarrow> string" where
  "error_message (TypeError m) = m"
| "error_message (Error m) = m"

text \<open>
  A JavaScript number: not-a-number, an infinity, or a finite value. Every finite double
  is a rational number, so a finite value is a \<open>rat\<close>; a statement proved for every
  rational holds for every double. The two zeros are not told apart (no comparison in
  the code does). Sum and product are the exact ones: that is the double result whenever
  the exact result is a double, as it is for the integer hours and minutes of a time of
  day; the rounding of other results is not modelled.
\<close>

datatype jsnum = NaN | PosInf | NegInf | Num rat

fun js_le :: "jsnum \<Rightarrow> jsnum \<Rightarrow> bool" where
  "js_le NaN b = False"
| "js_le a NaN = False"
| "js_le NegInf b = True"
| "js_le a PosInf = True"
| "js_le PosInf b = False"
| "js_le a NegInf = False"
| "js_le (Num x) (Num y) = (x \<le> y)"

definition js_ge :: "jsnum \<Rightarrow> jsnum \<Rightarrow> bool" where
  "js_ge a b = js_le b a"

fun js_add :: "jsnum \<Rightarrow> jsnum \<Rightarrow> jsnum" where
  "js_add NaN b = NaN"
| "js_add a NaN = NaN"
| "js_add PosInf NegInf = NaN"
| "js_add NegInf PosInf = NaN"
| "js_add PosInf b = PosInf"
| "js_add a PosInf = PosInf"
| "js_add NegInf b = NegInf"
| "js_add a NegInf = NegInf"
| "js_add (Num x) (Num y) = Num (x + y)"

fun js_sign :: "jsnum \<Rightarrow> int" where
  "js_sign PosInf = 1"
| "js_sign NegInf = - 1"
| "js_sign (Num x) = (if x < 0 then - 1 else if x = 0 then 0 else 1)"
| "js_sign NaN = 0"

fun js_mul :: "jsnum \<Rightarrow> jsnum \<Rightarrow> jsnum" where
  "js_mul NaN b = NaN"
| "js_mul a NaN = NaN"
| "js_mul (Num x) (Num y) = Num (x * y)"
| "js_mul a b =
     (if js_sign a * js_sign b = 0 then NaN
      else if js_sign a * js_sign b > 0 then PosInf else NegInf)"

text \<open>
  \<^verbatim>\<open>Math.round\<close>: the nearest integer, a tie going up.
\<close>

fun Math_round :: "jsnum \<Rightarrow> jsnum" where
  "Math_round (Num x) = Num (of_int \<lfloor>x + 1 / 2\<rfloor>)"
| "Math_round a = a"

text \<open>
  \<^verbatim>\<open>Number\<close> applied to a string is a parameter of the environment. The test
  environments below use \<open>decimal_Number\<close>, which is what \<^verbatim>\<open>Number\<close> gives on the
  strings that are decimal integers: white space around the text is dropped, the empty
  text is 0, an optional sign may precede the digits. (On a text with a fraction, an
  exponent, a radix prefix or the word \<^verbatim>\<open>Infinity\<close> it answers \<open>NaN\<close>, which
  \<^verbatim>\<open>Number\<close> does not; the tests have no such text.)
\<close>

definition is_digit :: "char \<Rightarrow> bool" where
  "is_digit c = (c \<in> set ''0123456789'')"

definition digit_value :: "char \<Rightarrow> nat" where
  "digit_value c = of_char c - 48"

definition dec_value :: "string \<Rightarrow> nat" where
  "dec_value s = foldl (\<lambda>acc c. acc * 10 + digit_value c) 0 s"

definition is_space :: "char \<Rightarrow> bool" where
  "is_space c = (of_char c \<in> {9, 10, 11, 12, 13, 32 :: nat})"

definition trim :: "string \<Rightarrow> string" where
  "trim s = rev (dropWhile is_space (rev (dropWhile is_space s)))"

definition digits_number :: "string \<Rightarrow> jsnum" where
  "digits_number ds = (if ds \<noteq> [] \<and> list_all is_digit ds then Num (of_nat (dec_value ds)) else NaN)"

definition decimal_Number :: "string \<Rightarrow> jsnum" where
  "decimal_Number s =
     (case trim s of
        [] \<Rightarrow> Num 0
      | c # cs \<Rightarrow>
          if c = CHR ''+'' then digits_number cs
          else if c = CHR ''-'' then js_mul (Num (- 1)) (digits_number cs)
          else digits_number (c # cs))"

text \<open>
  \<^verbatim>\<open>str.split(sep)\<close> for a one-character separator; the result is never empty.
\<close>

fun split :: "char \<Rightarrow> string \<Rightarrow> string list" where
  "split sep [] = [[]]"
| "split sep (c # cs) =
     (if c = sep then [] # split sep cs
      else (case split sep cs of [] \<Rightarrow> [[c]] | w # ws \<Rightarrow> (c # w) # ws))"

section \<open>The environment\<close>

text \<open>
  The world outside the code, fixed for one call: the outcome of the k-th call to the
  push client (as a function of the subscription and the payload it gets), whether the
  k-th write of the snapshot succeeds and, when it does not, what is left in the file
  (given what was there before; \<open>None\<close> is a file that cannot be read back), whether a
  write of the notification log succeeds, the clock, and the built-in \<^verbatim>\<open>Number\<close> on
  strings. The payload is of any type \<open>'p\<close> that \<^verbatim>\<open>JSON.stringify\<close> accepts: the
  dispatch code only hands it on.
\<close>

record 'p env =
  webpush_send :: "nat \<Rightarrow> subscription \<Rightarrow> 'p \<Rightarrow> push_result"
  fs_write_ok :: "nat \<Rightarrow> bool"
  fs_failed_file :: "nat \<Rightarrow> json_object option \<Rightarrow> json_object option"
  db_write_ok :: bool
  getHours :: nat
  getMinutes :: nat
  toISOString :: string
  Date_now :: int
  js_Number :: "string \<Rightarrow> jsnum"

section \<open>Property keys\<close>

text \<open>
  \<^verbatim>\<open>Object.fromEntries\<close> turns every key into a property name: a string stays as it is,
  a number is printed in decimal (the form \<^verbatim>\<open>String\<close> gives an integer below \<open>10^21\<close> in
  magnitude). A property that exists keeps its place when it is set again.
\<close>

definition digit_char :: "nat \<Rightarrow> char" where
  "digit_char d = ''0123456789'' ! (d mod 10)"

fun string_of_nat :: "nat \<Rightarrow> string" where
  "string_of_nat n =
     (if n < 10 then [digit_char n] else string_of_nat (n div 10) @ [digit_char (n mod 10)])"

declare string_of_nat.simps [simp del]

definition string_of_int :: "int \<Rightarrow> string" where
  "string_of_int i = (if i < 0 then CHR ''-'' # string_of_nat (nat (- i)) else string_of_nat (nat i))"

fun ToPropertyKey :: "userId \<Rightarrow> string" where
  "ToPropertyKey (UStr s) = s"
| "ToPropertyKey (UNum n) = string_of_int n"

text \<open>
  An array index is the canonical decimal form of an integer below \<open>2^32 - 1\<close>. An
  object enumerates such property names first, in ascending numeric order, and the
  other names after them in creation order.
\<close>

definition isArrayIndex :: "string \<Rightarrow> bool" where
  "isArrayIndex s =
     (s \<noteq> [] \<and> list_all is_digit s \<and> (s = ''0'' \<or> hd s \<noteq> CHR ''0'')
      \<and> dec_value s < 2 ^ 32 - 1)"

definition Object_set :: "string \<Rightarrow> subscription list \<Rightarrow> json_object \<Rightarrow> json_object" where
  "Object_set k v obj = AList.update k v obj"

definition Object_fromEntries :: "registry \<Rightarrow> json_object" where
  "Object_fromEntries m = foldl (\<lambda>obj (k, v). Object_set (ToPropertyKey k) v obj) [] m"

definition Object_entries :: "json_object \<Rightarrow> json_object" where
  "Object_entries obj =
     sort_key (\<lambda>p. dec_value (fst p)) (filter (\<lambda>p. isArrayIndex (fst p)) obj)
     @ filter (\<lambda>p. \<not> isArrayIndex (fst p)) obj"

section \<open>The push service (webpush.js)\<close>

text \<open>
  The functions of the service are asynchronous. Each is modelled as a function from the
  state before the call to the state after it and the value returned: one call runs to
  its end before the next one starts.
\<close>

text \<open>
  \<^verbatim>\<open>fs.writeFile\<close> on the snapshot: it replaces the file, or it throws. A write that
  throws may have truncated the file or written a part of it: what the file holds then
  is for the environment to say. The result is the error thrown, if any, and the state
  after the call.
\<close>

definition fs_writeFile :: "'p env \<Rightarrow> wps \<Rightarrow> json_object \<Rightarrow> exn option \<times> wps" where
  "fs_writeFile e s content =
     (if fs_write_ok e (writes s)
      then (None, s\<lparr>snapshot_file := Some content, writes := Suc (writes s)\<rparr>)
      else (Some (Error ''writeFile failed''),
            s\<lparr>snapshot_file := fs_failed_file e (writes s) (snapshot_file s),
              writes := Suc (writes s)\<rparr>))"

text \<open>
  \<^verbatim>\<open>saveSubscriptions\<close>: the whole body is inside a \<^verbatim>\<open>try\<close>; the \<^verbatim>\<open>catch\<close> logs the
  error to the console and the function returns. \<^verbatim>\<open>JSON.stringify\<close> writes the
  properties in the order the object enumerates them.
\<close>

definition saveSubscriptions :: "'p env \<Rightarrow> wps \<Rightarrow> wps" where
  "saveSubscriptions e s =
     (let data = Object_fromEntries (subscriptions s);
          (thrown, s') = fs_writeFile e s (Object_entries data)
      in case thrown of
           None \<Rightarrow> s'
         | Some error \<Rightarrow> s')"

text \<open>
  \<^verbatim>\<open>loadSubscriptions\<close>: the map is rebuilt from the entries of the parsed object, so
  every key of the new map is a string; a missing or unreadable file gives an empty map.
  The file holds what \<^verbatim>\<open>saveSubscriptions\<close> wrote, or nothing readable.
\<close>

definition loadSubscriptions :: "wps \<Rightarrow> wps" where
  "loadSubscriptions s =
     (case snapshot_file s of
        Some parsed \<Rightarrow> s\<lparr>subscriptions := map (\<lambda>(k, v). (UStr k, v)) (Object_entries parsed)\<rparr>
      | None \<Rightarrow> s\<lparr>subscriptions := []\<rparr>)"

definition getSubscriptions :: "wps \<Rightarrow> userId \<Rightarrow> subscription list" where
  "getSubscriptions s userId =
     (case Map_get (subscriptions s) userId of Some subs \<Rightarrow> subs | None \<Rightarrow> [])"

text \<open>
  \<^verbatim>\<open>subscribeUser\<close>. \<^verbatim>\<open>existingSubs\<close> is the array stored in the map, so the \<^verbatim>\<open>push\<close>
  changes the map's entry. The lookup after the \<^verbatim>\<open>set\<close> always finds the key.
\<close>

definition subscribeUser :: "'p env \<Rightarrow> wps \<Rightarrow> userId \<Rightarrow> subscription \<Rightarrow> wps \<times> bool" where
  "subscribeUser e s userId sub =
     (let s1 = (if \<not> Map_has (subscriptions s) userId
                then s\<lparr>subscriptions := Map_set (subscriptions s) userId []\<rparr> else s);
          existingSubs = getSubscriptions s1 userId;
          exists = list_ex (\<lambda>x. endpoint x = endpoint sub) existingSubs
      in if \<not> exists
         then (saveSubscriptions e
                 (s1\<lparr>subscriptions := Map_set (subscriptions s1) userId (existingSubs @ [sub])\<rparr>),
               True)
         else (s1, False))"

definition unsubscribeUser :: "'p env \<Rightarrow> wps \<Rightarrow> userId \<Rightarrow> string \<Rightarrow> wps \<times> bool" where
  "unsubscribeUser e s userId ep =
     (if Map_has (subscriptions s) userId
      then (let userSubs = getSubscriptions s userId;
                initialLength = length userSubs;
                s1 = s\<lparr>subscriptions :=
                         Map_set (subscriptions s) userId (filter (\<lambda>x. endpoint x \<noteq> ep) userSubs)\<rparr>
            in if length (getSubscriptions s1 userId) < initialLength
               then (saveSubscriptions e s1, True)
               else (s1, False))
      else (s, False))"

definition unsubscribeAll :: "'p env \<Rightarrow> wps \<Rightarrow> userId \<Rightarrow> wps \<times> bool" where
  "unsubscribeAll e s userId =
     (if Map_has (subscriptions s) userId
      then (saveSubscriptions e (s\<lparr>subscriptions := Map_delete (subscriptions s) userId\<rparr>), True)
      else (s, False))"

text \<open>
  The result of \<^verbatim>\<open>sendNotification\<close>. The early return for an unknown user has no
  \<^verbatim>\<open>errors\<close> field; an entry of \<^verbatim>\<open>errors\<close> is the endpoint and the error's message.
\<close>

record 'e results =
  sent :: nat
  failed :: nat
  errors :: "'e list option"

definition push_error :: "'e \<Rightarrow> ('e, 'z) results_scheme \<Rightarrow> ('e, 'z) results_scheme" where
  "push_error x r = r\<lparr>errors := (case errors r of Some es \<Rightarrow> Some (es @ [x]) | None \<Rightarrow> Some [x])\<rparr>"

text \<open>
  The loop of \<^verbatim>\<open>sendNotification\<close> runs over the array that was in the map when the
  call started: \<^verbatim>\<open>unsubscribeUser\<close> stores a new, filtered array and leaves that one
  alone.
\<close>

fun send_loop ::
  "'p env \<Rightarrow> userId \<Rightarrow> 'p \<Rightarrow> subscription list \<Rightarrow> wps \<Rightarrow> (string \<times> string) results
     \<Rightarrow> wps \<times> (string \<times> string) results" where
  "send_loop e userId payload [] s r = (s, r)"
| "send_loop e userId payload (sub # rest) s r =
     (let s1 = s\<lparr>attempts := attempts s @ [sub]\<rparr> in
      case webpush_send e (length (attempts s)) sub payload of
        Delivered \<Rightarrow> send_loop e userId payload rest s1 (r\<lparr>sent := Suc (sent r)\<rparr>)
      | Rejected statusCode message \<Rightarrow>
          (let r1 = push_error (endpoint sub, message) (r\<lparr>failed := Suc (failed r)\<rparr>);
               s2 = (if statusCode = Some 410
                     then fst (unsubscribeUser e s1 userId (endpoint sub)) else s1)
           in send_loop e userId payload rest s2 r1))"

definition sendNotification ::
  "'p env \<Rightarrow> wps \<Rightarrow> userId \<Rightarrow> 'p \<Rightarrow> wps \<times> (string \<times> string) results" where
  "sendNotification e s userId payload =
     (if \<not> Map_has (subscriptions s) userId
      then (s, \<lparr>sent = 0, failed = 0, errors = None\<rparr>)
      else send_loop e userId payload (getSubscriptions s userId) s
             \<lparr>sent = 0, failed = 0, errors = Some []\<rparr>)"

section \<open>The record store (database.js)\<close>

text \<open>
  A file of the store: unreadable (missing, or not JSON), or holding a JSON value that
  is an array or is not one. \<^verbatim>\<open>readFile\<close> turns an unreadable file into the empty
  array.
\<close>

datatype 'a js_data = Array "'a list" | NonArray

datatype 'a json_file = Unreadable | Parsed "'a js_data"

fun db_readFile :: "'a json_file \<Rightarrow> 'a js_data" where
  "db_readFile Unreadable = Array []"
| "db_readFile (Parsed d) = d"

text \<open>
  A quiet-hours bound, when present, is a string or some other truthy value (a number,
  say, stored by the preferences endpoint, which does not validate). A user has an id
  and, possibly, preferences; an entry of \<^verbatim>\<open>users.json\<close> is a user object or
  \<^verbatim>\<open>null\<close> (\<open>None\<close>).
\<close>

datatype timefield = TStr string | TOther

record quiet_hours =
  start_time :: "timefield option"
  end_time :: "timefield option"

record preferences =
  quietHours :: "quiet_hours option"

record user =
  user_id :: userId
  notificationPreferences :: "preferences option"

text \<open>
  \<^verbatim>\<open>db.findOne (file, {id: userId})\<close>: \<^verbatim>\<open>data.find\<close> does not exist on a value that is
  not an array, and reading \<^verbatim>\<open>item[key]\<close> of \<^verbatim>\<open>null\<close> throws; the search stops at the
  first match.
\<close>

fun find_item :: "user option list \<Rightarrow> userId \<Rightarrow> exn + user option" where
  "find_item [] uid = Inr None"
| "find_item (None # rest) uid = Inl (TypeError ''Cannot read properties of null'')"
| "find_item (Some item # rest) uid =
     (if user_id item \<noteq> uid then find_item rest uid else Inr (Some item))"

definition db_findOne :: "user option json_file \<Rightarrow> userId \<Rightarrow> exn + user option" where
  "db_findOne file uid =
     (case db_readFile file of
        NonArray \<Rightarrow> Inl (TypeError ''data.find is not a function'')
      | Array data \<Rightarrow> find_item data uid)"

section \<open>The scheduler (notificationScheduler.js)\<close>

text \<open>
  An id as a caller may hand it to the scheduler: a number or a string, or an object or
  array, as the HTTP handlers accept any truthy \<^verbatim>\<open>userId\<close> of a JSON body. An object
  comes with the text that a template literal \<^verbatim>\<open>${userId}\<close> turns it into, or with
  \<open>None\<close> when it has no conversion to a primitive (the JSON value
  \<^verbatim>\<open>{"toString": null}\<close>, say). An object parsed from a request is a new one: it is no
  key of the map of subscriptions and is identical to no id stored in a file.
\<close>

datatype js_id = Prim userId | Object "string option"

text \<open>
  One record of the notification log, as the parts of the object literal that builds it:
  the id and the user id written first, the payload spread after them, the two time
  stamps. The payload is kept whole in one field; where it has a field named like an
  earlier one, the literal takes the payload's value. No statement below reads the
  fields of a record.
\<close>

record 'p log_entry =
  log_id :: int
  log_userId :: js_id
  notification :: 'p
  sentAt :: string
  deliveryResult :: "(string \<times> string) results"
  loggedAt :: string

record 'p world =
  service :: wps
  users_json :: "user option json_file"
  notification_logs_json :: "'p log_entry json_file"

text \<open>
  \<^verbatim>\<open>timeToMinutes\<close>: the first two pieces of the text are the hours and the minutes; a
  missing piece is \<^verbatim>\<open>undefined\<close>, which makes the sum \<open>NaN\<close>. A value that is not a
  string has no \<^verbatim>\<open>split\<close>.
\<close>

fun timeToMinutes :: "'p env \<Rightarrow> timefield \<Rightarrow> exn + jsnum" where
  "timeToMinutes e TOther = Inl (TypeError ''timeStr.split is not a function'')"
| "timeToMinutes e (TStr timeStr) =
     (case map (js_Number e) (split CHR '':'' timeStr) of
        hours # minutes # _ \<Rightarrow> Inr (js_add (js_mul hours (Num 60)) minutes)
      | [hours] \<Rightarrow> Inr (js_add (js_mul hours (Num 60)) NaN)
      | [] \<Rightarrow> Inr NaN)"

fun truthy_field :: "timefield option \<Rightarrow> bool" where
  "truthy_field None = False"
| "truthy_field (Some (TStr s)) = (s \<noteq> [])"
| "truthy_field (Some TOther) = True"

definition currentTime :: "'p env \<Rightarrow> jsnum" where
  "currentTime e = Num (of_nat (getHours e * 60 + getMinutes e))"

definition isInQuietHours :: "'p env \<Rightarrow> quiet_hours option \<Rightarrow> exn + bool" where
  "isInQuietHours e qh =
     (case qh of
        None \<Rightarrow> Inr False
      | Some q \<Rightarrow>
          (case (start_time q, end_time q) of
             (Some st, Some en) \<Rightarrow>
               if \<not> truthy_field (Some st) \<or> \<not> truthy_field (Some en) then Inr False
               else (case timeToMinutes e st of
                       Inl err \<Rightarrow> Inl err
                     | Inr startTime \<Rightarrow>
                         (case timeToMinutes e en of
                            Inl err \<Rightarrow> Inl err
                          | Inr endTime \<Rightarrow>
                              if js_le startTime endTime
                              then Inr (js_ge (currentTime e) startTime \<and> js_le (currentTime e) endTime)
                              else Inr (js_ge (currentTime e) startTime \<or> js_le (currentTime e) endTime)))
           | _ \<Rightarrow> Inr False))"

text \<open>
  \<^verbatim>\<open>logNotification\<close>: everything is inside a \<^verbatim>\<open>try\<close>. \<^verbatim>\<open>logs.push\<close> throws when the
  file holds something that is not an array; \<^verbatim>\<open>db.writeFile\<close> reports a failed write by
  its result, which is ignored.
\<close>

definition logNotification ::
  "'p env \<Rightarrow> 'p world \<Rightarrow> js_id \<Rightarrow> 'p \<Rightarrow> string \<Rightarrow> (string \<times> string) results \<Rightarrow> 'p world" where
  "logNotification e w userId payload sent_at result =
     (case db_readFile (notification_logs_json w) of
        NonArray \<Rightarrow> w
      | Array logs \<Rightarrow>
          (let logs' = logs @ [\<lparr>log_id = Date_now e, log_userId = userId, notification = payload,
                                 sentAt = sent_at, deliveryResult = result,
                                 loggedAt = toISOString e\<rparr>]
           in if db_write_ok e then w\<lparr>notification_logs_json := Parsed (Array logs')\<rparr> else w))"

text \<open>
  The body of the \<^verbatim>\<open>try\<close> of \<^verbatim>\<open>sendNotificationToUser\<close>: \<open>Inl\<close> is an exception that
  leaves the body. Both places that can throw come before anything is changed.
\<close>

definition quiet_gate :: "'p env \<Rightarrow> user option \<Rightarrow> exn + bool" where
  "quiet_gate e found =
     (case found of
        None \<Rightarrow> Inr False
      | Some u \<Rightarrow>
          (case notificationPreferences u of
             None \<Rightarrow> Inr False
           | Some prefs \<Rightarrow>
               (case quietHours prefs of
                  None \<Rightarrow> Inr False
                | Some q \<Rightarrow> isInQuietHours e (Some q))))"

definition sendNotificationToUser_try :: "'p env \<Rightarrow> 'p world \<Rightarrow> userId \<Rightarrow> 'p \<Rightarrow> exn + 'p world" where
  "sendNotificationToUser_try e w userId payload =
     (case db_findOne (users_json w) userId of
        Inl err \<Rightarrow> Inl err
      | Inr found \<Rightarrow>
          (case quiet_gate e found of
             Inl err \<Rightarrow> Inl err
           | Inr True \<Rightarrow> Inr w
           | Inr False \<Rightarrow>
               (let (s', result) = sendNotification e (service w) userId payload
                in Inr (logNotification e (w\<lparr>service := s'\<rparr>) (Prim userId) payload
                          (toISOString e) result))))"

text \<open>
  \<^verbatim>\<open>sendNotificationToUser\<close> for an id that is a number or a string: the \<^verbatim>\<open>catch\<close>
  logs the error to the console, in a message built with \<^verbatim>\<open>${userId}\<close>, and the function
  returns. For a number or a string that message is always built; for other ids see
  \<open>sendNotificationToUser_js\<close> below. The result type keeps the possibility of a throw,
  which the callers guard against.
\<close>

definition sendNotificationToUser :: "'p env \<Rightarrow> 'p world \<Rightarrow> userId \<Rightarrow> 'p \<Rightarrow> exn + 'p world" where
  "sendNotificationToUser e w userId payload =
     (case sendNotificationToUser_try e w userId payload of
        Inl err \<Rightarrow> Inr w
      | Inr w' \<Rightarrow> Inr w')"

record custom_result =
  success :: bool
  message :: "string option"
  error :: "string option"

definition sendCustomNotification ::
  "'p env \<Rightarrow> 'p world \<Rightarrow> userId \<Rightarrow> 'p \<Rightarrow> 'p world \<times> custom_result" where
  "sendCustomNotification e w userId notificationData =
     (case sendNotificationToUser e w userId notificationData of
        Inr w' \<Rightarrow> (w', \<lparr>success = True, message = Some ''Notification sent'', error = None\<rparr>)
      | Inl err \<Rightarrow> (w, \<lparr>success = False, message = None, error = Some (error_message err)\<rparr>))"

record 'e bulk_results = "'e results" +
  total :: nat

fun bulk_loop ::
  "'p env \<Rightarrow> 'p \<Rightarrow> userId list \<Rightarrow> 'p world \<Rightarrow> (userId \<times> string) bulk_results
     \<Rightarrow> 'p world \<times> (userId \<times> string) bulk_results" where
  "bulk_loop e notificationData [] w r = (w, r)"
| "bulk_loop e notificationData (userId # rest) w r =
     (case sendNotificationToUser e w userId notificationData of
        Inr w' \<Rightarrow> bulk_loop e notificationData rest w' (r\<lparr>sent := Suc (sent r)\<rparr>)
      | Inl err \<Rightarrow>
          bulk_loop e notificationData rest w
            (push_error (userId, error_message err) (r\<lparr>failed := Suc (failed r)\<rparr>)))"

definition sendBulkNotification ::
  "'p env \<Rightarrow> 'p world \<Rightarrow> userId list \<Rightarrow> 'p \<Rightarrow> 'p world \<times> (userId \<times> string) bulk_results" where
  "sendBulkNotification e w userIds notificationData =
     bulk_loop e notificationData userIds w
       \<lparr>sent = 0, failed = 0, errors = Some [], total = length userIds\<rparr>"

section \<open>Other ids\<close>

text \<open>
  The same functions for any id. For a number or a string they are the functions
  above. For an object the source is followed line by line: every console message that
  names the user is built with \<^verbatim>\<open>${userId}\<close>, which throws a \<^verbatim>\<open>TypeError\<close> when the
  object has no conversion to a primitive.
\<close>

fun template_userId :: "js_id \<Rightarrow> exn option" where
  "template_userId (Prim u) = None"
| "template_userId (Object (Some s)) = None"
| "template_userId (Object None) = Some (TypeError ''Cannot convert object to primitive value'')"

text \<open>
  \<^verbatim>\<open>db.findOne\<close>: no item has an id identical to a new object, so the search runs to
  the end of the array and finds nothing, unless it meets a \<^verbatim>\<open>null\<close> item first.
\<close>

definition db_findOne_js :: "user option json_file \<Rightarrow> js_id \<Rightarrow> exn + user option" where
  "db_findOne_js file uid =
     (case uid of
        Prim u \<Rightarrow> db_findOne file u
      | Object c \<Rightarrow>
          (case db_readFile file of
             NonArray \<Rightarrow> Inl (TypeError ''data.find is not a function'')
           | Array data \<Rightarrow>
               if list_ex (\<lambda>item. item = None) data
               then Inl (TypeError ''Cannot read properties of null'') else Inr None))"

text \<open>
  \<^verbatim>\<open>webPushService.sendNotification\<close>: the map has no entry for a new object, so the
  function logs that no subscriptions were found for the user, outside any \<^verbatim>\<open>try\<close>, and
  returns \<open>{sent: 0, failed: 0}\<close>.
\<close>

definition sendNotification_js ::
  "'p env \<Rightarrow> wps \<Rightarrow> js_id \<Rightarrow> 'p \<Rightarrow> exn + wps \<times> (string \<times> string) results" where
  "sendNotification_js e s uid payload =
     (case uid of
        Prim u \<Rightarrow> Inr (sendNotification e s u payload)
      | Object c \<Rightarrow>
          (case template_userId uid of
             Some err \<Rightarrow> Inl err
           | None \<Rightarrow> Inr (s, \<lparr>sent = 0, failed = 0, errors = None\<rparr>)))"

text \<open>
  The body of the \<^verbatim>\<open>try\<close> of \<^verbatim>\<open>sendNotificationToUser\<close>. For an object no user is
  found, so the quiet-hours gate is passed over.
\<close>

definition sendNotificationToUser_js_try :: "'p env \<Rightarrow> 'p world \<Rightarrow> js_id \<Rightarrow> 'p \<Rightarrow> exn + 'p world" where
  "sendNotificationToUser_js_try e w uid payload =
     (case uid of
        Prim u \<Rightarrow> sendNotificationToUser_try e w u payload
      | Object c \<Rightarrow>
          (case db_findOne_js (users_json w) uid of
             Inl err \<Rightarrow> Inl err
           | Inr found \<Rightarrow>
               (case sendNotification_js e (service w) uid payload of
                  Inl err \<Rightarrow> Inl err
                | Inr (s', result) \<Rightarrow>
                    Inr (logNotification e (w\<lparr>service := s'\<rparr>) uid payload (toISOString e) result))))"

text \<open>
  \<^verbatim>\<open>sendNotificationToUser\<close>: the \<^verbatim>\<open>catch\<close> builds its console message with
  \<^verbatim>\<open>${userId}\<close>; when that throws, the error leaves the function.
\<close>

definition sendNotificationToUser_js :: "'p env \<Rightarrow> 'p world \<Rightarrow> js_id \<Rightarrow> 'p \<Rightarrow> exn + 'p world" where
  "sendNotificationToUser_js e w uid payload =
     (case sendNotificationToUser_js_try e w uid payload of
        Inr w' \<Rightarrow> Inr w'
      | Inl err \<Rightarrow>
          (case template_userId uid of
             Some err' \<Rightarrow> Inl err'
           | None \<Rightarrow> Inr w))"

definition sendCustomNotification_js ::
  "'p env \<Rightarrow> 'p world \<Rightarrow> js_id \<Rightarrow> 'p \<Rightarrow> 'p world \<times> custom_result" where
  "sendCustomNotification_js e w uid notificationData =
     (case sendNotificationToUser_js e w uid notificationData of
        Inr w' \<Rightarrow> (w', \<lparr>success = True, message = Some ''Notification sent'', error = None\<rparr>)
      | Inl err \<Rightarrow> (w, \<lparr>success = False, message = None, error = Some (error_message err)\<rparr>))"

section \<open>The calorie-achievement producer (NotificationController.js)\<close>

text \<open>
  The fields of the request body that the handler reads; each may be absent. The numeric
  fields are JSON numbers.
\<close>

record calorie_body =
  body_userId :: "userId option"
  caloriesConsumed :: "jsnum option"
  calorieGoal :: "jsnum option"
  percentage :: "jsnum option"

fun truthy_num :: "jsnum option \<Rightarrow> bool" where
  "truthy_num None = False"
| "truthy_num (Some NaN) = False"
| "truthy_num (Some (Num x)) = (x \<noteq> 0)"
| "truthy_num (Some a) = True"

fun truthy_id :: "userId option \<Rightarrow> bool" where
  "truthy_id None = False"
| "truthy_id (Some (UNum n)) = (n \<noteq> 0)"
| "truthy_id (Some (UStr s)) = (s \<noteq> [])"

text \<open>
  The text of the notification is a template filled with numbers; the template and the
  numbers are kept, their rendering as text is not. The titles end in a pictograph,
  given by the bytes it has in the source file.
\<close>

datatype body_text =
    ReachedGoal jsnum
  | AtPercentOfGoal jsnum
  | ConsumedPercent jsnum
  | CurrentOf jsnum jsnum jsnum

record calorie_data =
  data_type :: string
  timestamp :: string
  data_caloriesConsumed :: jsnum
  data_calorieGoal :: jsnum
  data_percentage :: jsnum
  action :: string
  url :: string

record calorie_notification =
  title :: string
  body :: body_text
  icon :: string
  badge :: string
  data :: calorie_data

datatype response =
    Status400 string
  | Json200 string userId calorie_notification
  | Status500 string

text \<open>
  \<^verbatim>\<open>percentage || (caloriesConsumed / calorieGoal * 100)\<close>. The quotient and the product
  are double arithmetic, which rounds; \<open>percent_of\<close> stands for it and is a parameter,
  so that nothing is assumed about that rounding.
\<close>

definition percentageCalc ::
  "(jsnum \<Rightarrow> jsnum \<Rightarrow> jsnum) \<Rightarrow> jsnum option \<Rightarrow> jsnum \<Rightarrow> jsnum \<Rightarrow> jsnum" where
  "percentageCalc percent_of given consumed goal =
     (case given of
        Some p \<Rightarrow> if truthy_num (Some p) then p else percent_of consumed goal
      | None \<Rightarrow> percent_of consumed goal)"

definition Goal_Achieved :: string where
  "Goal_Achieved = ''Goal Achieved! '' @ [CHR 0xF0, CHR 0x9F, CHR 0x8E, CHR 0xAF]"

definition Almost_There :: string where
  "Almost_There = ''Almost There! '' @ [CHR 0xE2, CHR 0x9A, CHR 0xA1]"

definition Halfway_There :: string where
  "Halfway_There = ''Halfway There! '' @ [CHR 0xF0, CHR 0x9F, CHR 0x93, CHR 0x8A]"

definition Calorie_Update :: string where
  "Calorie_Update = ''Calorie Update '' @ [CHR 0xF0, CHR 0x9F, CHR 0x93, CHR 0x88]"

definition calorie_title_body :: "jsnum \<Rightarrow> jsnum \<Rightarrow> jsnum \<Rightarrow> string \<times> body_text" where
  "calorie_title_body roundedPercentage consumed goal =
     (if js_ge roundedPercentage (Num 100) then (Goal_Achieved, ReachedGoal goal)
      else if js_ge roundedPercentage (Num 75)
      then (Almost_There, AtPercentOfGoal roundedPercentage)
      else if js_ge roundedPercentage (Num 50)
      then (Halfway_There, ConsumedPercent roundedPercentage)
      else (Calorie_Update, CurrentOf consumed goal roundedPercentage))"

text \<open>
  \<^verbatim>\<open>sendCalorieAchievement\<close>: the answer is status 400, or the notification that was
  built and handed to \<^verbatim>\<open>sendCustomNotification\<close>, or status 500 with the error that
  call reported. Nothing inside the handler's own \<^verbatim>\<open>try\<close> throws here, so its
  \<^verbatim>\<open>catch\<close> is left out.
\<close>

definition sendCalorieAchievement ::
  "(jsnum \<Rightarrow> jsnum \<Rightarrow> jsnum) \<Rightarrow> calorie_notification env \<Rightarrow> calorie_notification world
     \<Rightarrow> calorie_body \<Rightarrow> calorie_notification world \<times> response" where
  "sendCalorieAchievement percent_of e w req =
     (case (body_userId req, caloriesConsumed req, calorieGoal req) of
        (Some userId, Some consumed, Some goal) \<Rightarrow>
          if \<not> truthy_id (Some userId) \<or> \<not> truthy_num (Some consumed) \<or> \<not> truthy_num (Some goal)
          then (w, Status400 ''userId, caloriesConsumed, and calorieGoal are required'')
          else
            (let roundedPercentage = Math_round (percentageCalc percent_of (percentage req) consumed goal);
                 (title', body') = calorie_title_body roundedPercentage consumed goal;
                 notification' =
                   \<lparr>title = title', body = body', icon = ''/icons/calories.png'',
                    badge = ''/icons/badge.png'',
                    data = \<lparr>data_type = ''calorie_achievement'', timestamp = toISOString e,
                            data_caloriesConsumed = consumed, data_calorieGoal = goal,
                            data_percentage = roundedPercentage, action = ''view_dashboard'',
                            url = ''/dashboard''\<rparr>\<rparr>;
                 (w', result) = sendCustomNotification e w userId notification'
             in if success result
                then (w', Json200 ''Calorie achievement notification sent'' userId notification')
                else (w', Status500 (case error result of Some m \<Rightarrow> m | None \<Rightarrow> [])))
      | _ \<Rightarrow> (w, Status400 ''userId, caloriesConsumed, and calorieGoal are required''))"

section \<open>Auxiliary definitions for the statements\<close>

text \<open>
  An attempt is classified gone when the push client rejects it with status 410.
  \<open>gone_endpoints e payload k subs\<close> lists the endpoints so classified when \<open>subs\<close> are
  attempted one after the other, the first attempt being call number \<open>k\<close> of the push
  client.
\<close>

fun is_gone :: "push_result \<Rightarrow> bool" where
  "is_gone Delivered = False"
| "is_gone (Rejected statusCode m) = (statusCode = Some 410)"

fun gone_endpoints :: "'p env \<Rightarrow> 'p \<Rightarrow> nat \<Rightarrow> subscription list \<Rightarrow> string list" where
  "gone_endpoints e payload k [] = []"
| "gone_endpoints e payload k (sub # rest) =
     (if is_gone (webpush_send e k sub payload) then [endpoint sub] else [])
     @ gone_endpoints e payload (Suc k) rest"

text \<open>Concrete subscriptions, environments and states used as test inputs.\<close>

definition sub_a :: subscription where
  "sub_a = \<lparr>endpoint = ''https://push.example/a'', keys = \<lparr>p256dh = ''pa'', auth = ''aa''\<rparr>\<rparr>"

definition sub_b :: subscription where
  "sub_b = \<lparr>endpoint = ''https://push.example/b'', keys = \<lparr>p256dh = ''pb'', auth = ''ab''\<rparr>\<rparr>"

definition sub_c :: subscription where
  "sub_c = \<lparr>endpoint = ''https://push.example/c'', keys = \<lparr>p256dh = ''pc'', auth = ''ac''\<rparr>\<rparr>"

text \<open>At 23:30; the push service answers 410 for endpoint b and accepts the others.\<close>

definition env_b_gone :: "string env" where
  "env_b_gone =
     \<lparr>webpush_send = (\<lambda>k sub p. if endpoint sub = ''https://push.example/b''
                                    then Rejected (Some 410) ''Gone'' else Delivered),
      fs_write_ok = (\<lambda>k. True), fs_failed_file = (\<lambda>k old. old), db_write_ok = True,
      getHours = 23, getMinutes = 30,
      toISOString = ''2024-01-01T23:30:00.000Z'', Date_now = 1704151800000,
      js_Number = decimal_Number\<rparr>"

text \<open>
  The same, with every write of the snapshot failing and leaving a file that cannot be
  read back.
\<close>

definition env_disk_full :: "string env" where
  "env_disk_full = env_b_gone\<lparr>fs_write_ok := (\<lambda>k. False), fs_failed_file := (\<lambda>k old. None)\<rparr>"

definition wps_one_user :: wps where
  "wps_one_user =
     \<lparr>subscriptions = [(UNum 1, [sub_a])], snapshot_file = None, attempts = [], writes = 0\<rparr>"

definition wps_two_users :: wps where
  "wps_two_users =
     \<lparr>subscriptions = [(UNum 1, [sub_a, sub_b, sub_c]), (UNum 2, [sub_b])],
      snapshot_file = None, attempts = [], writes = 0\<rparr>"

text \<open>The environment at a given time of day, every push accepted.\<close>

definition env_at :: "nat \<Rightarrow> nat \<Rightarrow> string env" where
  "env_at h m =
     \<lparr>webpush_send = (\<lambda>k sub p. Delivered),
      fs_write_ok = (\<lambda>k. True), fs_failed_file = (\<lambda>k old. old), db_write_ok = True,
      getHours = h, getMinutes = m,
      toISOString = ''2024-01-01T00:00:00.000Z'', Date_now = 1704067200000,
      js_Number = decimal_Number\<rparr>"

definition night_window :: quiet_hours where
  "night_window = \<lparr>start_time = Some (TStr ''22:00''), end_time = Some (TStr ''07:00'')\<rparr>"


text \<open>
  Three users, each with one subscription: the first has quiet hours from 22:00 to
  07:00, the other two have no preferences. In the second world the quiet hours of
  user 2 have numbers as bounds, as the preferences endpoint stores them when it is sent
  numbers.
\<close>

definition user1 :: user where
  "user1 = \<lparr>user_id = UNum 1, notificationPreferences = Some \<lparr>quietHours = Some night_window\<rparr>\<rparr>"

definition user2 :: user where
  "user2 = \<lparr>user_id = UNum 2, notificationPreferences = None\<rparr>"

definition user2_numeric :: user where
  "user2_numeric =
     \<lparr>user_id = UNum 2,
      notificationPreferences =
        Some \<lparr>quietHours = Some \<lparr>start_time = Some TOther, end_time = Some TOther\<rparr>\<rparr>\<rparr>"

definition user3 :: user where
  "user3 = \<lparr>user_id = UNum 3, notificationPreferences = None\<rparr>"

definition world3 :: "string world" where
  "world3 =
     \<lparr>service = \<lparr>subscriptions = [(UNum 1, [sub_a]), (UNum 2, [sub_b]), (UNum 3, [sub_c])],
                 snapshot_file = None, attempts = [], writes = 0\<rparr>,
      users_json = Parsed (Array [Some user1, Some user2, Some user3]),
      notification_logs_json = Parsed (Array [])\<rparr>"

definition world3_numeric :: "string world" where
  "world3_numeric = world3\<lparr>users_json := Parsed (Array [Some user1, Some user2_numeric, Some user3])\<rparr>"

text \<open>Noon; the push service answers 410 for endpoint b and accepts the others.\<close>

definition env_noon_b_gone :: "string env" where
  "env_noon_b_gone = env_b_gone\<lparr>getHours := 12, getMinutes := 0\<rparr>"

text \<open>A key of the registry that is a string.\<close>

definition is_string_key :: "userId \<Rightarrow> bool" where
  "is_string_key k = (case k of UStr s \<Rightarrow> True | UNum n \<Rightarrow> False)"

text \<open>The records of the notification log, as \<^verbatim>\<open>readFile\<close> gives them.\<close>

definition log_entries :: "'p world \<Rightarrow> 'p log_entry list" where
  "log_entries w = (case db_readFile (notification_logs_json w) of Array logs \<Rightarrow> logs | NonArray \<Rightarrow> [])"

fun response_notification :: "response \<Rightarrow> calorie_notification option" where
  "response_notification (Json200 m u n) = Some n"
| "response_notification (Status400 m) = None"
| "response_notification (Status500 m) = None"

text \<open>The title and the rounded percentage of the notification the handler answers with.\<close>

definition answered_title :: "response \<Rightarrow> string option" where
  "answered_title r = map_option title (response_notification r)"

definition answered_percentage :: "response \<Rightarrow> jsnum option" where
  "answered_percentage r = map_option (\<lambda>n. data_percentage (data n)) (response_notification r)"

definition calorie_env :: "calorie_notification env" where
  "calorie_env =
     \<lparr>webpush_send = (\<lambda>k sub p. Delivered),
      fs_write_ok = (\<lambda>k. True), fs_failed_file = (\<lambda>k old. old), db_write_ok = True,
      getHours = 12, getMinutes = 0,
      toISOString = ''2024-01-01T12:00:00.000Z'', Date_now = 1704110400000,
      js_Number = decimal_Number\<rparr>"

definition calorie_world :: "calorie_notification world" where
  "calorie_world =
     \<lparr>service = wps_one_user, users_json = Parsed (Array [Some user3]),
      notification_logs_json = Parsed (Array [])\<rparr>"

text \<open>The exact quotient, as one possible value of the double arithmetic.\<close>

fun exact_percent :: "jsnum \<Rightarrow> jsnum \<Rightarrow> jsnum" where
  "exact_percent (Num a) (Num b) = (if b = 0 then NaN else Num (a / b * 100))"
| "exact_percent a b = NaN"

section \<open>Facts about the registry\<close>

lemma subscriptions_saveSubscriptions [simp]:
  "subscriptions (saveSubscriptions e s) = subscriptions s"
  by (simp add: saveSubscriptions_def fs_writeFile_def Let_def)

lemma attempts_saveSubscriptions [simp]:
  "attempts (saveSubscriptions e s) = attempts s"
  by (simp add: saveSubscriptions_def fs_writeFile_def Let_def)

lemma getSubscriptions_saveSubscriptions [simp]:
  "getSubscriptions (saveSubscriptions e s) u = getSubscriptions s u"
  by (simp add: getSubscriptions_def)

lemma getSubscriptions_attempts_update [simp]:
  "getSubscriptions (s\<lparr>attempts := a\<rparr>) u = getSubscriptions s u"
  by (simp add: getSubscriptions_def)

lemma getSubscriptions_Map_set:
  "getSubscriptions (s\<lparr>subscriptions := Map_set (subscriptions s) u xs\<rparr>) v =
     (if v = u then xs else getSubscriptions s v)"
  by (simp add: getSubscriptions_def Map_get_def Map_set_def update_conv')

lemma getSubscriptions_absent:
  "\<not> Map_has (subscriptions s) u \<Longrightarrow> getSubscriptions s u = []"
  by (simp add: getSubscriptions_def Map_get_def Map_has_def)

lemma Map_has_Map_set: "Map_has (Map_set m u xs) v = (v = u \<or> Map_has m v)"
  by (simp add: Map_has_def Map_set_def update_conv')

lemma Map_set_Map_set: "Map_set (Map_set m u xs) u ys = Map_set m u ys"
  by (simp add: Map_set_def)

lemma Map_has_Map_delete: "Map_has (Map_delete m u) v = (v \<noteq> u \<and> Map_has m v)"
  by (simp add: Map_has_def Map_delete_def delete_conv')

lemma getSubscriptions_Map_delete:
  "getSubscriptions (s\<lparr>subscriptions := Map_delete (subscriptions s) u\<rparr>) v =
     (if v = u then [] else getSubscriptions s v)"
  by (simp add: getSubscriptions_def Map_get_def Map_delete_def delete_conv')

subsection \<open>Unsubscribing\<close>

lemma getSubscriptions_unsubscribeUser:
  "getSubscriptions (fst (unsubscribeUser e s u ep)) v =
     (if v = u then filter (\<lambda>x. endpoint x \<noteq> ep) (getSubscriptions s u) else getSubscriptions s v)"
  by (simp add: unsubscribeUser_def Let_def getSubscriptions_Map_set getSubscriptions_absent)

lemma attempts_unsubscribeUser [simp]:
  "attempts (fst (unsubscribeUser e s u ep)) = attempts s"
  by (simp add: unsubscribeUser_def Let_def)

lemma subscriptions_unsubscribeUser:
  "subscriptions (fst (unsubscribeUser e s u ep)) =
     (if Map_has (subscriptions s) u
      then Map_set (subscriptions s) u (filter (\<lambda>x. endpoint x \<noteq> ep) (getSubscriptions s u))
      else subscriptions s)"
  by (simp add: unsubscribeUser_def Let_def)

lemma snd_unsubscribeUser:
  "snd (unsubscribeUser e s u ep) = (ep \<in> endpoint ` set (getSubscriptions s u))"
proof -
  have "(length (filter (\<lambda>x. endpoint x \<noteq> ep) xs) < length xs) = (ep \<in> endpoint ` set xs)"
    for xs :: "subscription list"
    by (induction xs) (auto simp add: less_Suc_eq_le)
  then show ?thesis
    by (auto simp add: unsubscribeUser_def Let_def getSubscriptions_Map_set getSubscriptions_absent)
qed

lemma unsubscribeAll_result:
  "subscriptions (fst (unsubscribeAll e s u)) =
     (if Map_has (subscriptions s) u then Map_delete (subscriptions s) u else subscriptions s)"
  "snd (unsubscribeAll e s u) = Map_has (subscriptions s) u"
  by (simp_all add: unsubscribeAll_def)

lemma getSubscriptions_unsubscribeAll:
  "getSubscriptions (fst (unsubscribeAll e s u)) v = (if v = u then [] else getSubscriptions s v)"
  by (simp add: unsubscribeAll_def getSubscriptions_Map_delete getSubscriptions_absent)

lemma Map_has_unsubscribeAll:
  "\<not> Map_has (subscriptions (fst (unsubscribeAll e s u))) u"
  by (simp add: unsubscribeAll_def Map_has_Map_delete)

subsection \<open>Subscribing\<close>

text \<open>
  The two branches of \<^verbatim>\<open>subscribeUser\<close> in terms of the list the user had before the
  call; creating the empty entry first makes no difference to the outcome.
\<close>

lemma subscribeUser_eq:
  "subscribeUser e s u sub =
     (if endpoint sub \<in> endpoint ` set (getSubscriptions s u) then (s, False)
      else (saveSubscriptions e
              (s\<lparr>subscriptions := Map_set (subscriptions s) u (getSubscriptions s u @ [sub])\<rparr>),
            True))"
proof (cases "Map_has (subscriptions s) u")
  case True
  then show ?thesis
    by (auto simp add: subscribeUser_def Let_def list_ex_iff intro: rev_image_eqI)
next
  case False
  then have "getSubscriptions s u = []"
    by (rule getSubscriptions_absent)
  with False show ?thesis
    by (simp add: subscribeUser_def Let_def getSubscriptions_Map_set Map_set_Map_set)
qed

lemma subscriptions_subscribeUser:
  "subscriptions (fst (subscribeUser e s u sub)) =
     (if endpoint sub \<notin> endpoint ` set (getSubscriptions s u)
      then Map_set (subscriptions s) u (getSubscriptions s u @ [sub])
      else subscriptions s)"
  by (simp add: subscribeUser_eq)

lemma snd_subscribeUser:
  "snd (subscribeUser e s u sub) = (endpoint sub \<notin> endpoint ` set (getSubscriptions s u))"
  by (simp add: subscribeUser_eq)

lemma getSubscriptions_subscribeUser:
  "getSubscriptions (fst (subscribeUser e s u sub)) v =
     (if v = u \<and> endpoint sub \<notin> endpoint ` set (getSubscriptions s u)
      then getSubscriptions s u @ [sub] else getSubscriptions s v)"
  by (simp add: subscribeUser_eq getSubscriptions_Map_set)

subsection \<open>The delivery loop\<close>

lemma attempts_send_loop:
  "attempts (fst (send_loop e u p subs s r)) = attempts s @ subs"
  by (induction subs arbitrary: s r) (simp_all add: Let_def split: push_result.split)

lemma counters_send_loop:
  "sent (snd (send_loop e u p subs s r)) + failed (snd (send_loop e u p subs s r))
     = sent r + failed r + length subs"
  by (induction subs arbitrary: s r)
     (simp_all add: Let_def push_error_def split: push_result.split)

lemma send_loop_subs:
  "getSubscriptions (fst (send_loop e u p subs s r)) v =
     (if v = u
      then filter (\<lambda>x. endpoint x \<notin> set (gone_endpoints e p (length (attempts s)) subs))
             (getSubscriptions s u)
      else getSubscriptions s v)"
proof (induction subs arbitrary: s r)
  case Nil
  show ?case by simp
next
  case (Cons sub rest)
  show ?case
  proof (cases "webpush_send e (length (attempts s)) sub p")
    case Delivered
    then show ?thesis by (simp add: Cons.IH)
  next
    case (Rejected c m)
    then show ?thesis
      by (simp add: Cons.IH Let_def getSubscriptions_unsubscribeUser conj_commute)
  qed
qed

lemma endpoint_subs [simp]:
  "endpoint sub_a = ''https://push.example/a''"
  "endpoint sub_b = ''https://push.example/b''"
  "endpoint sub_c = ''https://push.example/c''"
  by (simp_all add: sub_a_def sub_b_def sub_c_def)

lemma webpush_send_env_b_gone:
  "webpush_send env_b_gone k sub p =
     (if endpoint sub = ''https://push.example/b'' then Rejected (Some 410) ''Gone'' else Delivered)"
  by (simp add: env_b_gone_def)

lemma wps_one_user_fields:
  "subscriptions wps_one_user = [(UNum 1, [sub_a])]"
  "snapshot_file wps_one_user = None"
  "attempts wps_one_user = []"
  "writes wps_one_user = 0"
  by (simp_all add: wps_one_user_def)

lemma getSubscriptions_wps_one_user: "getSubscriptions wps_one_user (UNum 1) = [sub_a]"
  by (simp add: wps_one_user_def getSubscriptions_def Map_get_def)

lemma getSubscriptions_wps_two_users:
  "getSubscriptions wps_two_users (UNum 1) = [sub_a, sub_b, sub_c]"
  "getSubscriptions wps_two_users (UNum 2) = [sub_b]"
  "getSubscriptions wps_two_users (UNum 9) = []"
  by (simp_all add: wps_two_users_def getSubscriptions_def Map_get_def)

subsection \<open>The scheduler\<close>

lemma attempts_sendNotification:
  "attempts (fst (sendNotification e s userId payload)) = attempts s @ getSubscriptions s userId"
  by (simp add: sendNotification_def attempts_send_loop getSubscriptions_absent)

lemma service_logNotification [simp]:
  "service (logNotification e w u p t r) = service w"
  by (simp add: logNotification_def Let_def split: js_data.split)

lemma sendNotificationToUser_Inr:
  "\<exists>w'. sendNotificationToUser e w u p = Inr w'"
  by (simp add: sendNotificationToUser_def split: sum.split)

lemma sendNotificationToUser_not_Inl [simp]:
  "sendNotificationToUser e w u p \<noteq> Inl err"
  by (simp add: sendNotificationToUser_def split: sum.split)

lemma sendNotificationToUser_open_gate:
  assumes "db_findOne (users_json w) userId = Inr found" "quiet_gate e found = Inr False"
  shows "sendNotificationToUser e w userId payload
           = Inr (logNotification e
                    (w\<lparr>service := fst (sendNotification e (service w) userId payload)\<rparr>)
                    (Prim userId) payload (toISOString e)
                    (snd (sendNotification e (service w) userId payload)))"
  using assms
  by (simp add: sendNotificationToUser_def sendNotificationToUser_try_def split_beta)

lemma quiet_gate_active:
  assumes "notificationPreferences u = Some prefs" "quietHours prefs = Some q"
  shows "quiet_gate e (Some u) = isInQuietHours e (Some q)"
  using assms by (simp add: quiet_gate_def)

lemma bulk_loop_result:
  "snd (bulk_loop e p ids w r) = r\<lparr>sent := sent r + length ids\<rparr>"
  by (induction ids arbitrary: w r) (simp_all split: sum.split)

text \<open>
  Whatever happens to the users (their ids being numbers or strings),
  \<^verbatim>\<open>sendBulkNotification\<close> counts every one of them as sent.
\<close>

lemma sendBulkNotification_result:
  "snd (sendBulkNotification e w ids p)
     = \<lparr>sent = length ids, failed = 0, errors = Some [], total = length ids\<rparr>"
  by (simp add: sendBulkNotification_def bulk_loop_result)

lemma sendCustomNotification_success [simp]:
  "success (snd (sendCustomNotification e w u p))"
proof -
  have "\<exists>w'. sendNotificationToUser e w u p = Inr w'"
    by (rule sendNotificationToUser_Inr)
  then obtain w' where r: "sendNotificationToUser e w u p = Inr w'" ..
  then show ?thesis by (simp add: sendCustomNotification_def)
qed

subsection \<open>Other ids\<close>

lemma sendNotificationToUser_js_Prim:
  "sendNotificationToUser_js e w (Prim u) p = sendNotificationToUser e w u p"
  by (simp add: sendNotificationToUser_js_def sendNotificationToUser_js_try_def
        sendNotificationToUser_def split: sum.split)

lemma sendCustomNotification_js_Prim:
  "sendCustomNotification_js e w (Prim u) p = sendCustomNotification e w u p"
  by (simp add: sendCustomNotification_js_def sendCustomNotification_def
        sendNotificationToUser_js_Prim)

lemma sendNotificationToUser_js_convertible:
  "template_userId uid = None \<Longrightarrow> \<exists>w'. sendNotificationToUser_js e w uid p = Inr w'"
  by (simp add: sendNotificationToUser_js_def split: sum.split)

lemma sendNotificationToUser_js_try_unconvertible:
  "\<exists>err. sendNotificationToUser_js_try e w (Object None) p = Inl err"
  by (simp add: sendNotificationToUser_js_try_def db_findOne_js_def sendNotification_js_def
        split: js_data.split)

lemma sendNotificationToUser_js_unconvertible:
  "sendNotificationToUser_js e w (Object None) p
     = Inl (TypeError ''Cannot convert object to primitive value'')"
proof -
  have "\<exists>err. sendNotificationToUser_js_try e w (Object None) p = Inl err"
    by (rule sendNotificationToUser_js_try_unconvertible)
  then obtain err where "sendNotificationToUser_js_try e w (Object None) p = Inl err" ..
  then show ?thesis by (simp add: sendNotificationToUser_js_def)
qed

subsection \<open>Times of day\<close>

lemma T2200: "timeToMinutes (env_at h m) (TStr ''22:00'') = Inr (Num 1320)"
  by (simp add: env_at_def decimal_Number_def trim_def is_space_def digits_number_def is_digit_def dec_value_def
        digit_value_def)

lemma T0700: "timeToMinutes (env_at h m) (TStr ''07:00'') = Inr (Num 420)"
  by (simp add: env_at_def decimal_Number_def trim_def is_space_def digits_number_def is_digit_def dec_value_def
        digit_value_def)



lemma currentTime_env_at: "currentTime (env_at h m) = Num (of_nat (h * 60 + m))"
  by (simp add: currentTime_def env_at_def)

lemma night_active: "isInQuietHours (env_at 23 30) (Some night_window) = Inr True"
  by (simp add: isInQuietHours_def night_window_def T2200 T0700 currentTime_env_at js_ge_def
        del: timeToMinutes.simps)

subsection \<open>The test world\<close>

lemma findOne_world3:
  "db_findOne (users_json world3) (UNum 1) = Inr (Some user1)"
  "db_findOne (users_json world3) (UNum 2) = Inr (Some user2)"
  "db_findOne (users_json world3) (UNum 3) = Inr (Some user3)"
  by (simp_all add: world3_def db_findOne_def user1_def user2_def user3_def)

lemma findOne_world3_numeric:
  "db_findOne (users_json world3_numeric) (UNum 2) = Inr (Some user2_numeric)"
  by (simp add: world3_numeric_def db_findOne_def user1_def user2_numeric_def)

lemma gate_user3: "quiet_gate (env_at 12 0) (Some user3) = Inr False"
  by (simp add: quiet_gate_def user3_def)

lemma service_world3:
  "getSubscriptions (service world3) (UNum 3) = [sub_c]"
  "getSubscriptions (service world3) (UNum 2) = [sub_b]"
  "Map_has (subscriptions (service world3)) (UNum 2)"
  "attempts (service world3) = []"
  by (simp_all add: world3_def getSubscriptions_def Map_get_def Map_has_def)

lemma user2_numeric_throws:
  "sendNotificationToUser_try e world3_numeric (UNum 2) p
     = Inl (TypeError ''timeStr.split is not a function'')"
  by (simp add: sendNotificationToUser_try_def findOne_world3_numeric quiet_gate_def
        user2_numeric_def isInQuietHours_def)

lemma user2_delivery_fails:
  "snd (sendNotification env_noon_b_gone (service world3) (UNum 2) ''hello'')
     = \<lparr>sent = 0, failed = 1, errors = Some [(''https://push.example/b'', ''Gone'')]\<rparr>"
  by (simp add: sendNotification_def service_world3 env_noon_b_gone_def
        webpush_send_env_b_gone env_b_gone_def push_error_def)

subsection \<open>The snapshot\<close>

lemma ToPropertyKey_inj:
  "is_string_key a \<Longrightarrow> is_string_key b \<Longrightarrow> ToPropertyKey a = ToPropertyKey b \<Longrightarrow> a = b"
  by (cases a; cases b; simp add: is_string_key_def)

lemma inj_on_string_keys:
  assumes "list_all (\<lambda>p. is_string_key (fst p)) m"
  shows "inj_on ToPropertyKey (fst ` set m)"
proof (rule inj_onI)
  fix a b
  assume a: "a \<in> fst ` set m" and b: "b \<in> fst ` set m"
    and eq: "ToPropertyKey a = ToPropertyKey b"
  from assms a have "is_string_key a" by (auto simp add: list_all_iff)
  moreover from assms b have "is_string_key b" by (auto simp add: list_all_iff)
  ultimately show "a = b" using eq by (rule ToPropertyKey_inj)
qed

lemma distinct_property_names:
  assumes "list_all (\<lambda>p. is_string_key (fst p)) m" "distinct (map fst m)"
  shows "distinct (map fst (map (\<lambda>(k, v). (ToPropertyKey k, v)) m))"
proof -
  have e: "map fst (map (\<lambda>(k, v). (ToPropertyKey k, v)) m) = map ToPropertyKey (map fst m)"
    by (induction m) auto
  have "distinct (map ToPropertyKey (map fst m))"
    unfolding distinct_map [of ToPropertyKey "map fst m"]
    using assms(2) inj_on_string_keys [OF assms(1)] by simp
  then show ?thesis by (simp only: e)
qed

lemma update_fresh: "k \<notin> fst ` set al \<Longrightarrow> AList.update k v al = al @ [(k, v)]"
  by (induction al) auto

lemma foldl_update_distinct:
  "distinct (map fst (acc @ m)) \<Longrightarrow>
     foldl (\<lambda>obj (k, v). Object_set k v obj) acc m = acc @ m"
proof (induction m arbitrary: acc)
  case Nil
  show ?case by simp
next
  case (Cons p m)
  obtain k v where p: "p = (k, v)" by (cases p)
  from Cons.prems p have fresh: "k \<notin> fst ` set acc" by auto
  from Cons.prems p have d: "distinct (map fst ((acc @ [(k, v)]) @ m))" by auto
  show ?case
    using Cons.IH [OF d] by (simp add: p Object_set_def update_fresh [OF fresh])
qed

lemma Object_fromEntries_string_keys:
  assumes "list_all (\<lambda>p. is_string_key (fst p)) m" "distinct (map fst m)"
  shows "Object_fromEntries m = map (\<lambda>(k, v). (ToPropertyKey k, v)) m"
proof -
  have d: "distinct (map fst (map (\<lambda>(k, v). (ToPropertyKey k, v)) m))"
    using assms by (rule distinct_property_names)
  have "Object_fromEntries m
          = foldl (\<lambda>obj (k, v). Object_set k v obj) [] (map (\<lambda>(k, v). (ToPropertyKey k, v)) m)"
    by (simp add: Object_fromEntries_def foldl_map case_prod_unfold)
  also have "\<dots> = map (\<lambda>(k, v). (ToPropertyKey k, v)) m"
    using foldl_update_distinct [of "[]" "map (\<lambda>(k, v). (ToPropertyKey k, v)) m"] d by simp
  finally show ?thesis .
qed

lemma Object_entries_set: "set (Object_entries obj) = set obj"
  by (auto simp add: Object_entries_def)

lemma Object_entries_distinct:
  assumes "distinct (map fst obj)"
  shows "distinct (map fst (Object_entries obj))"
proof -
  from assms have d: "distinct obj" and i: "inj_on fst (set obj)"
    by (simp_all add: distinct_map)
  have "distinct (Object_entries obj)"
    using d by (auto simp add: Object_entries_def)
  moreover have "inj_on fst (set (Object_entries obj))"
    using i by (simp add: Object_entries_set)
  ultimately show ?thesis by (simp add: distinct_map)
qed

lemma map_of_Object_entries:
  assumes "distinct (map fst obj)"
  shows "map_of (Object_entries obj) = map_of obj"
  using assms Object_entries_distinct [OF assms]
  by (simp add: map_of_inject_set Object_entries_set)

lemma map_of_UStr:
  "map_of (map (\<lambda>(k, v). (UStr k, v)) obj) (UStr k) = map_of obj k"
  by (induction obj) auto

lemma map_of_UStr_UNum:
  "map_of (map (\<lambda>(k, v). (UStr k, v)) obj) (UNum n) = None"
  by (induction obj) auto

lemma map_of_ToPropertyKey:
  assumes "list_all (\<lambda>p. is_string_key (fst p)) m"
  shows "map_of (map (\<lambda>(k, v). (ToPropertyKey k, v)) m) k = map_of m (UStr k)"
  using assms
  by (induction m) (auto simp add: is_string_key_def split: userId.splits)

text \<open>
  What the snapshot does keep. When every key of the map is a string (and the keys are
  pairwise different, as the keys of a \<^verbatim>\<open>Map\<close> are), a successful save followed by a
  load gives every string user id the list it had, fields and order included. And
  whatever the map was, no numeric user id has subscriptions after the load.
\<close>

lemma restart_keeps_string_users:
  assumes str: "list_all (\<lambda>p. is_string_key (fst p)) (subscriptions s)"
    and dist: "distinct (map fst (subscriptions s))"
    and ok: "fs_write_ok e (writes s)"
  shows "getSubscriptions (loadSubscriptions (saveSubscriptions e s)) (UStr k)
           = getSubscriptions s (UStr k)"
proof -
  let ?obj = "map (\<lambda>(k, v). (ToPropertyKey k, v)) (subscriptions s)"
  have d: "distinct (map fst ?obj)"
    using str dist by (rule distinct_property_names)
  have written: "snapshot_file (saveSubscriptions e s) = Some (Object_entries ?obj)"
    using ok
    by (simp add: saveSubscriptions_def fs_writeFile_def
          Object_fromEntries_string_keys [OF str dist])
  have loaded: "subscriptions (loadSubscriptions (saveSubscriptions e s))
                  = map (\<lambda>(k, v). (UStr k, v)) (Object_entries (Object_entries ?obj))"
    by (simp add: loadSubscriptions_def written)
  have d1: "distinct (map fst (Object_entries ?obj))"
    using d by (rule Object_entries_distinct)
  have m1: "map_of (Object_entries ?obj) = map_of ?obj"
    using d by (rule map_of_Object_entries)
  have m2: "map_of (Object_entries (Object_entries ?obj)) = map_of (Object_entries ?obj)"
    using d1 by (rule map_of_Object_entries)
  have m: "map_of (Object_entries (Object_entries ?obj)) = map_of ?obj"
    by (simp only: m2 m1)
  show ?thesis
    by (simp add: getSubscriptions_def Map_get_def loaded map_of_UStr m
          map_of_ToPropertyKey [OF str])
qed

lemma restart_drops_numeric_users:
  "getSubscriptions (loadSubscriptions s) (UNum n) = []"
  by (simp add: getSubscriptions_def Map_get_def loadSubscriptions_def map_of_UStr_UNum
        split: option.split)

subsection \<open>The calorie handler\<close>

lemma sendCalorieAchievement_valid:
  assumes "truthy_id (Some uid)" "truthy_num (Some c)" "truthy_num (Some g)"
  shows "response_notification (snd (sendCalorieAchievement percent_of e w
            \<lparr>body_userId = Some uid, caloriesConsumed = Some c, calorieGoal = Some g,
             percentage = pc\<rparr>))
     = Some \<lparr>title = fst (calorie_title_body (Math_round (percentageCalc percent_of pc c g)) c g),
             body = snd (calorie_title_body (Math_round (percentageCalc percent_of pc c g)) c g),
             icon = ''/icons/calories.png'', badge = ''/icons/badge.png'',
             data = \<lparr>data_type = ''calorie_achievement'', timestamp = toISOString e,
                     data_caloriesConsumed = c, data_calorieGoal = g,
                     data_percentage = Math_round (percentageCalc percent_of pc c g),
                     action = ''view_dashboard'', url = ''/dashboard''\<rparr>\<rparr>"
  using assms
  by (simp add: sendCalorieAchievement_def Let_def split_beta
        del: truthy_id.simps truthy_num.simps)

lemma answered_valid:
  assumes "truthy_id (Some uid)" "truthy_num (Some c)" "truthy_num (Some g)"
  shows "answered_title (snd (sendCalorieAchievement percent_of e w
            \<lparr>body_userId = Some uid, caloriesConsumed = Some c, calorieGoal = Some g,
             percentage = pc\<rparr>))
           = Some (fst (calorie_title_body (Math_round (percentageCalc percent_of pc c g)) c g))"
    and "answered_percentage (snd (sendCalorieAchievement percent_of e w
            \<lparr>body_userId = Some uid, caloriesConsumed = Some c, calorieGoal = Some g,
             percentage = pc\<rparr>))
           = Some (Math_round (percentageCalc percent_of pc c g))"
  by (simp_all add: answered_title_def answered_percentage_def
        sendCalorieAchievement_valid [OF assms])

lemma percentageCalc_given:
  "truthy_num (Some p) \<Longrightarrow> percentageCalc percent_of (Some p) c g = p"
  by (simp add: percentageCalc_def)

lemma title_of_integer:
  "fst (calorie_title_body (Num (of_int n)) c g) =
     (if 100 \<le> n then Goal_Achieved
      else if 75 \<le> n then Almost_There
      else if 50 \<le> n then Halfway_There
      else Calorie_Update)"
proof -
  have a: "((100::rat) \<le> of_int n) = (100 \<le> n)"
    by linarith
  have b: "((75::rat) \<le> of_int n) = (75 \<le> n)"
    by linarith
  have c: "((50::rat) \<le> of_int n) = (50 \<le> n)"
    by linarith
  show ?thesis
    by (simp add: calorie_title_body_def js_ge_def a b c)
qed

lemma round_nearest: "\<bar>of_int \<lfloor>x + 1 / 2\<rfloor> - x\<bar> \<le> (1 / 2 :: rat)"
  by linarith

section \<open>Claims\<close>

text \<open>
  C1. \<^verbatim>\<open>sendNotification\<close> calls the push client once for every subscription the user
  had when the call started, in order, and for no other: the calls it adds to the trace
  are exactly that list, whatever is pruned on the way. The two counters of the result
  add up to the length of that list. For a user without an entry the result is
  \<open>{sent: 0, failed: 0}\<close> and the state is untouched; for a user with an empty list both
  counters are 0. The same trace results from \<^verbatim>\<open>sendNotificationToUser\<close> when the user
  lookup returns and the quiet-hours gate is not active.
\<close>

theorem sendNotification_attempts:
  "attempts (fst (sendNotification e s userId payload)) = attempts s @ getSubscriptions s userId
   \<and> sent (snd (sendNotification e s userId payload))
       + failed (snd (sendNotification e s userId payload)) = length (getSubscriptions s userId)
   \<and> (\<not> Map_has (subscriptions s) userId \<longrightarrow>
        sendNotification e s userId payload = (s, \<lparr>sent = 0, failed = 0, errors = None\<rparr>))
   \<and> (getSubscriptions s userId = [] \<longrightarrow>
        sent (snd (sendNotification e s userId payload)) = 0
        \<and> failed (snd (sendNotification e s userId payload)) = 0)
   \<and> (db_findOne (users_json w) userId = Inr found \<and> quiet_gate e found = Inr False \<longrightarrow>
        (\<exists>w'. sendNotificationToUser e w userId payload = Inr w'
              \<and> attempts (service w')
                  = attempts (service w) @ getSubscriptions (service w) userId))"
proof -
  have a: "attempts (fst (sendNotification e s userId payload))
             = attempts s @ getSubscriptions s userId"
    by (rule attempts_sendNotification)
  have c: "sent (snd (sendNotification e s userId payload))
       + failed (snd (sendNotification e s userId payload)) = length (getSubscriptions s userId)"
    by (simp add: sendNotification_def counters_send_loop getSubscriptions_absent)
  have n: "\<not> Map_has (subscriptions s) userId \<longrightarrow>
        sendNotification e s userId payload = (s, \<lparr>sent = 0, failed = 0, errors = None\<rparr>)"
    by (simp add: sendNotification_def)
  have z: "getSubscriptions s userId = [] \<longrightarrow>
        sent (snd (sendNotification e s userId payload)) = 0
        \<and> failed (snd (sendNotification e s userId payload)) = 0"
    using c by auto
  have d: "db_findOne (users_json w) userId = Inr found \<and> quiet_gate e found = Inr False \<longrightarrow>
        (\<exists>w'. sendNotificationToUser e w userId payload = Inr w'
              \<and> attempts (service w')
                  = attempts (service w) @ getSubscriptions (service w) userId)"
    by (auto simp add: sendNotificationToUser_open_gate attempts_sendNotification)
  from a c n z d show ?thesis by blast
qed

theorem sendNotification_attempts_witness:
  "attempts (fst (sendNotification env_b_gone wps_two_users (UNum 1) ''hello''))
     = [sub_a, sub_b, sub_c]
   \<and> sent (snd (sendNotification env_b_gone wps_two_users (UNum 1) ''hello''))
       + failed (snd (sendNotification env_b_gone wps_two_users (UNum 1) ''hello'')) = 3
   \<and> \<not> Map_has (subscriptions wps_two_users) (UNum 9)
   \<and> getSubscriptions wps_two_users (UNum 9) = []
   \<and> sendNotification env_b_gone wps_two_users (UNum 9) ''hello''
       = (wps_two_users, \<lparr>sent = 0, failed = 0, errors = None\<rparr>)
   \<and> db_findOne (users_json world3) (UNum 3) = Inr (Some user3)
   \<and> quiet_gate (env_at 12 0) (Some user3) = Inr False
   \<and> (\<exists>w'. sendNotificationToUser (env_at 12 0) world3 (UNum 3) ''hello'' = Inr w'
            \<and> attempts (service w') = [sub_c])"
proof -
  have absent: "\<not> Map_has (subscriptions wps_two_users) (UNum 9)"
    by (simp add: wps_two_users_def Map_has_def)
  have empty: "attempts wps_two_users = []"
    by (simp add: wps_two_users_def)
  note t1 = sendNotification_attempts [of env_b_gone wps_two_users "UNum 1" "''hello''"
              world3 "Some user3"]
  note t9 = sendNotification_attempts [of env_b_gone wps_two_users "UNum 9" "''hello''"
              world3 "Some user3"]
  note t3 = sendNotification_attempts [of "env_at 12 0" wps_two_users "UNum 3" "''hello''"
              world3 "Some user3"]
  from t1 have a: "attempts (fst (sendNotification env_b_gone wps_two_users (UNum 1) ''hello''))
                     = attempts wps_two_users @ getSubscriptions wps_two_users (UNum 1)"
    by blast
  from t1 have c: "sent (snd (sendNotification env_b_gone wps_two_users (UNum 1) ''hello''))
       + failed (snd (sendNotification env_b_gone wps_two_users (UNum 1) ''hello''))
       = length (getSubscriptions wps_two_users (UNum 1))"
    by blast
  from t9 absent have n: "sendNotification env_b_gone wps_two_users (UNum 9) ''hello''
       = (wps_two_users, \<lparr>sent = 0, failed = 0, errors = None\<rparr>)"
    by blast
  from t3 findOne_world3(3) gate_user3
  have d: "\<exists>w'. sendNotificationToUser (env_at 12 0) world3 (UNum 3) ''hello'' = Inr w'
            \<and> attempts (service w')
                = attempts (service world3) @ getSubscriptions (service world3) (UNum 3)"
    by blast
  from a c n d absent findOne_world3(3) gate_user3 show ?thesis
    by (simp add: getSubscriptions_wps_two_users empty service_world3)
qed



text \<open>
  C3. When the user's record is found and its quiet-hours window is active,
  \<^verbatim>\<open>sendNotificationToUser\<close> returns with the world exactly as it was: no call to the
  push client is added to the trace, the registry is the same, and the notification log
  is the same, so no record of the skipped dispatch is written (the skip goes to the
  console only).
\<close>

theorem quiet_hours_skip:
  assumes "db_findOne (users_json w) userId = Inr (Some u)"
    and "notificationPreferences u = Some prefs"
    and "quietHours prefs = Some q"
    and "isInQuietHours e (Some q) = Inr True"
  shows "sendNotificationToUser e w userId payload = Inr w"
  using assms
  by (simp add: sendNotificationToUser_def sendNotificationToUser_try_def quiet_gate_active)

theorem quiet_hours_skip_witness:
  "db_findOne (users_json world3) (UNum 1) = Inr (Some user1)
   \<and> notificationPreferences user1 = Some \<lparr>quietHours = Some night_window\<rparr>
   \<and> isInQuietHours (env_at 23 30) (Some night_window) = Inr True
   \<and> sendNotificationToUser (env_at 23 30) world3 (UNum 1) ''hello'' = Inr world3"
proof -
  have p: "notificationPreferences user1 = Some \<lparr>quietHours = Some night_window\<rparr>"
    by (simp add: user1_def)
  have q: "quietHours \<lparr>quietHours = Some night_window\<rparr> = Some night_window"
    by simp
  from quiet_hours_skip [OF findOne_world3(1) p q night_active, of "''hello''"]
    findOne_world3(1) p night_active
  show ?thesis by blast
qed

text \<open>
  The claim as written has one audit record written for the skipped dispatch. For user 1
  at 23:30, inside the window 22:00 to 07:00, the log is empty before the dispatch and
  empty after it.
\<close>

theorem quiet_hours_audit_record_counterexample:
  "isInQuietHours (env_at 23 30) (Some night_window) = Inr True
   \<and> log_entries world3 = []
   \<and> (case sendNotificationToUser (env_at 23 30) world3 (UNum 1) ''hello'' of
        Inr w' \<Rightarrow> log_entries w' = [] \<and> length (log_entries w') \<noteq> Suc (length (log_entries world3))
      | Inl err \<Rightarrow> False)"
proof -
  have p: "notificationPreferences user1 = Some \<lparr>quietHours = Some night_window\<rparr>"
    by (simp add: user1_def)
  have r: "sendNotificationToUser (env_at 23 30) world3 (UNum 1) ''hello'' = Inr world3"
    by (simp add: sendNotificationToUser_def sendNotificationToUser_try_def findOne_world3
          quiet_gate_def p night_active)
  have l: "log_entries world3 = []"
    by (simp add: log_entries_def world3_def)
  show ?thesis
    by (simp add: r l night_active)
qed

text \<open>
  C4. Removing an endpoint: \<^verbatim>\<open>unsubscribeUser\<close> leaves the user with the former list
  minus the subscriptions of that endpoint, in the former order, and leaves the list of
  every other user as it was. Hence after \<^verbatim>\<open>sendNotification\<close> returns, no endpoint
  whose attempt was answered 410 is in the user's list, the user's list is the former
  one minus exactly those endpoints, and the lists of all other users are unchanged.
\<close>

theorem gone_endpoint_pruned:
  "getSubscriptions (fst (unsubscribeUser e s u ep)) u
     = filter (\<lambda>x. endpoint x \<noteq> ep) (getSubscriptions s u)
   \<and> (\<forall>v. v \<noteq> u \<longrightarrow> getSubscriptions (fst (unsubscribeUser e s u ep)) v = getSubscriptions s v)
   \<and> (\<forall>ep' \<in> set (gone_endpoints e p (length (attempts s)) (getSubscriptions s u)).
        ep' \<notin> endpoint ` set (getSubscriptions (fst (sendNotification e s u p)) u))
   \<and> getSubscriptions (fst (sendNotification e s u p)) u
       = filter (\<lambda>x. endpoint x \<notin> set (gone_endpoints e p (length (attempts s))
                                            (getSubscriptions s u)))
           (getSubscriptions s u)
   \<and> (\<forall>v. v \<noteq> u \<longrightarrow> getSubscriptions (fst (sendNotification e s u p)) v = getSubscriptions s v)"
proof -
  have k: "getSubscriptions (fst (sendNotification e s u p)) v =
     (if v = u
      then filter (\<lambda>x. endpoint x \<notin> set (gone_endpoints e p (length (attempts s))
                                           (getSubscriptions s u)))
             (getSubscriptions s u)
      else getSubscriptions s v)" for v
    by (simp add: sendNotification_def send_loop_subs getSubscriptions_absent)
  show ?thesis
    by (auto simp add: getSubscriptions_unsubscribeUser k)
qed

theorem gone_endpoint_pruned_witness:
  "''https://push.example/b''
     \<in> set (gone_endpoints env_b_gone ''hello'' (length (attempts wps_two_users))
              (getSubscriptions wps_two_users (UNum 1)))
   \<and> getSubscriptions (fst (sendNotification env_b_gone wps_two_users (UNum 1) ''hello'')) (UNum 1)
       = [sub_a, sub_c]
   \<and> UNum 2 \<noteq> UNum 1
   \<and> getSubscriptions (fst (sendNotification env_b_gone wps_two_users (UNum 1) ''hello'')) (UNum 2)
       = [sub_b]
   \<and> getSubscriptions (fst (unsubscribeUser env_b_gone wps_two_users (UNum 1)
                               ''https://push.example/b'')) (UNum 1) = [sub_a, sub_c]
   \<and> getSubscriptions (fst (unsubscribeUser env_b_gone wps_two_users (UNum 1)
                               ''https://push.example/b'')) (UNum 2) = [sub_b]"
proof -
  have g: "gone_endpoints env_b_gone ''hello'' (length (attempts wps_two_users))
             (getSubscriptions wps_two_users (UNum 1)) = [''https://push.example/b'']"
    by (simp add: webpush_send_env_b_gone getSubscriptions_wps_two_users)
  note t = gone_endpoint_pruned [of env_b_gone wps_two_users "UNum 1" "''https://push.example/b''"
                                    "''hello''"]
  from t have a: "getSubscriptions (fst (sendNotification env_b_gone wps_two_users (UNum 1) ''hello''))
                    (UNum 1)
        = filter (\<lambda>x. endpoint x \<notin> set (gone_endpoints env_b_gone ''hello''
                          (length (attempts wps_two_users)) (getSubscriptions wps_two_users (UNum 1))))
            (getSubscriptions wps_two_users (UNum 1))"
    by blast
  from t have b: "\<forall>v. v \<noteq> UNum 1 \<longrightarrow>
        getSubscriptions (fst (sendNotification env_b_gone wps_two_users (UNum 1) ''hello'')) v
          = getSubscriptions wps_two_users v"
    by blast
  from t have c: "getSubscriptions (fst (unsubscribeUser env_b_gone wps_two_users (UNum 1)
                               ''https://push.example/b'')) (UNum 1)
        = filter (\<lambda>x. endpoint x \<noteq> ''https://push.example/b'')
            (getSubscriptions wps_two_users (UNum 1))"
    by blast
  from t have d: "\<forall>v. v \<noteq> UNum 1 \<longrightarrow>
        getSubscriptions (fst (unsubscribeUser env_b_gone wps_two_users (UNum 1)
                               ''https://push.example/b'')) v
          = getSubscriptions wps_two_users v"
    by blast
  have a': "getSubscriptions (fst (sendNotification env_b_gone wps_two_users (UNum 1) ''hello''))
              (UNum 1) = [sub_a, sub_c]"
    unfolding a g by (simp add: getSubscriptions_wps_two_users)
  have c': "getSubscriptions (fst (unsubscribeUser env_b_gone wps_two_users (UNum 1)
                               ''https://push.example/b'')) (UNum 1) = [sub_a, sub_c]"
    unfolding c by (simp add: getSubscriptions_wps_two_users)
  from a' c' b d g show ?thesis
    by (simp add: getSubscriptions_wps_two_users)
qed

text \<open>
  C5. Two calls of \<^verbatim>\<open>subscribeUser\<close> for the same user with subscriptions of the same
  endpoint. The first call answers \<open>true\<close> exactly when the user did not have that
  endpoint yet. The second call answers \<open>false\<close> and changes nothing at all: the state
  after it is the state after the first call. If the user's endpoints were pairwise
  different before, they still are.
\<close>

theorem subscribeUser_twice:
  assumes "endpoint sub' = endpoint sub"
  shows "snd (subscribeUser e s u sub) = (endpoint sub \<notin> endpoint ` set (getSubscriptions s u))
    \<and> subscribeUser e' (fst (subscribeUser e s u sub)) u sub' = (fst (subscribeUser e s u sub), False)
    \<and> (distinct (map endpoint (getSubscriptions s u))
         \<longrightarrow> distinct (map endpoint (getSubscriptions (fst (subscribeUser e s u sub)) u)))"
proof -
  have first: "snd (subscribeUser e s u sub)
                 = (endpoint sub \<notin> endpoint ` set (getSubscriptions s u))"
    by (simp add: subscribeUser_eq)
  have "endpoint sub' \<in> endpoint ` set (getSubscriptions (fst (subscribeUser e s u sub)) u)"
    using assms by (auto simp add: getSubscriptions_subscribeUser)
  then have second: "subscribeUser e' (fst (subscribeUser e s u sub)) u sub'
                       = (fst (subscribeUser e s u sub), False)"
    by (simp add: subscribeUser_eq)
  have uniq: "distinct (map endpoint (getSubscriptions s u))
         \<longrightarrow> distinct (map endpoint (getSubscriptions (fst (subscribeUser e s u sub)) u))"
    by (auto simp add: getSubscriptions_subscribeUser)
  from first second uniq show ?thesis by blast
qed

theorem subscribeUser_twice_witness:
  "endpoint sub_b = endpoint sub_b
   \<and> snd (subscribeUser env_b_gone wps_one_user (UNum 1) sub_b) = True
   \<and> snd (subscribeUser env_b_gone (fst (subscribeUser env_b_gone wps_one_user (UNum 1) sub_b))
            (UNum 1) sub_b) = False
   \<and> distinct (map endpoint (getSubscriptions wps_one_user (UNum 1)))
   \<and> distinct (map endpoint
        (getSubscriptions (fst (subscribeUser env_b_gone wps_one_user (UNum 1) sub_b)) (UNum 1)))"
  using subscribeUser_twice [of sub_b sub_b env_b_gone wps_one_user "UNum 1" env_b_gone]
  by (simp add: getSubscriptions_wps_one_user)

text \<open>
  The claim as written promises \<open>true\<close> from the first of the two calls for every user and
  subscription. A user who already has the endpoint gets \<open>false\<close> from the first call too.
\<close>

theorem subscribeUser_first_call_counterexample:
  "\<not> (snd (subscribeUser env_b_gone wps_one_user (UNum 1) sub_a) = True
      \<and> snd (subscribeUser env_b_gone (fst (subscribeUser env_b_gone wps_one_user (UNum 1) sub_a))
               (UNum 1) sub_a) = False)"
  by (simp add: subscribeUser_eq getSubscriptions_wps_one_user)

text \<open>
  C6. Users 1, 2 and 3 at noon, each with one subscription; the push service rejects
  the endpoint of user 2. The dispatch to user 2 delivers nothing and records one
  failure, yet \<^verbatim>\<open>sendBulkNotification\<close> counts all three users as sent and reports no
  failure and no error. It reports the same when the dispatch to user 2 throws (the
  bounds of that user's quiet hours are numbers): \<^verbatim>\<open>sendNotificationToUser\<close> has
  caught the error, and the \<^verbatim>\<open>catch\<close> of the bulk loop is not reached.
\<close>

theorem sendBulkNotification_swallowed_failure:
  "snd (sendNotification env_noon_b_gone (service world3) (UNum 2) ''hello'')
     = \<lparr>sent = 0, failed = 1, errors = Some [(''https://push.example/b'', ''Gone'')]\<rparr>
   \<and> snd (sendBulkNotification env_noon_b_gone world3 [UNum 1, UNum 2, UNum 3] ''hello'')
       = \<lparr>sent = 3, failed = 0, errors = Some [], total = 3\<rparr>
   \<and> sendNotificationToUser_try (env_at 12 0) world3_numeric (UNum 2) ''hello''
       = Inl (TypeError ''timeStr.split is not a function'')
   \<and> snd (sendBulkNotification (env_at 12 0) world3_numeric [UNum 1, UNum 2, UNum 3] ''hello'')
       = \<lparr>sent = 3, failed = 0, errors = Some [], total = 3\<rparr>"
  by (simp add: user2_delivery_fails user2_numeric_throws sendBulkNotification_result)

text \<open>
  C7. For a request that carries a user id, the calories consumed and the calorie goal
  (all truthy), the handler answers with a notification. When the percentage it works
  with is the finite number x, the percentage it reports is the integer
  \<open>\<lfloor>x + 1/2\<rfloor>\<close>, which is within one half of x, and the title is chosen by that integer:
  at least 100, Goal Achieved; from 75 to 99, Almost There; from 50 to 74, Halfway
  There; below 50, Calorie Update. A request with percentage 100 gets Goal Achieved,
  one with 74.9 gets Almost There and reports 75, one with 49 gets Calorie Update.
\<close>

theorem calorie_tiers:
  "(truthy_id (Some uid) \<and> truthy_num (Some c) \<and> truthy_num (Some g)
      \<and> percentageCalc percent_of pc c g = Num x
     \<longrightarrow> answered_title (snd (sendCalorieAchievement percent_of e w
             \<lparr>body_userId = Some uid, caloriesConsumed = Some c, calorieGoal = Some g,
              percentage = pc\<rparr>))
           = Some (if 100 \<le> \<lfloor>x + 1 / 2\<rfloor> then Goal_Achieved
                   else if 75 \<le> \<lfloor>x + 1 / 2\<rfloor> then Almost_There
                   else if 50 \<le> \<lfloor>x + 1 / 2\<rfloor> then Halfway_There
                   else Calorie_Update)
         \<and> answered_percentage (snd (sendCalorieAchievement percent_of e w
             \<lparr>body_userId = Some uid, caloriesConsumed = Some c, calorieGoal = Some g,
              percentage = pc\<rparr>))
           = Some (Num (of_int \<lfloor>x + 1 / 2\<rfloor>))
         \<and> \<bar>of_int \<lfloor>x + 1 / 2\<rfloor> - x\<bar> \<le> 1 / 2)
   \<and> (truthy_id (Some uid) \<and> truthy_num (Some c) \<and> truthy_num (Some g)
     \<longrightarrow> answered_title (snd (sendCalorieAchievement percent_of e w
             \<lparr>body_userId = Some uid, caloriesConsumed = Some c, calorieGoal = Some g,
              percentage = Some (Num 100)\<rparr>)) = Some Goal_Achieved
         \<and> answered_title (snd (sendCalorieAchievement percent_of e w
             \<lparr>body_userId = Some uid, caloriesConsumed = Some c, calorieGoal = Some g,
              percentage = Some (Num (749 / 10))\<rparr>)) = Some Almost_There
         \<and> answered_percentage (snd (sendCalorieAchievement percent_of e w
             \<lparr>body_userId = Some uid, caloriesConsumed = Some c, calorieGoal = Some g,
              percentage = Some (Num (749 / 10))\<rparr>)) = Some (Num 75)
         \<and> answered_title (snd (sendCalorieAchievement percent_of e w
             \<lparr>body_userId = Some uid, caloriesConsumed = Some c, calorieGoal = Some g,
              percentage = Some (Num 49)\<rparr>)) = Some Calorie_Update)"
proof -
  have general: "answered_title (snd (sendCalorieAchievement percent_of e w
             \<lparr>body_userId = Some uid, caloriesConsumed = Some c, calorieGoal = Some g,
              percentage = pc\<rparr>))
           = Some (if 100 \<le> \<lfloor>x + 1 / 2\<rfloor> then Goal_Achieved
                   else if 75 \<le> \<lfloor>x + 1 / 2\<rfloor> then Almost_There
                   else if 50 \<le> \<lfloor>x + 1 / 2\<rfloor> then Halfway_There
                   else Calorie_Update)
         \<and> answered_percentage (snd (sendCalorieAchievement percent_of e w
             \<lparr>body_userId = Some uid, caloriesConsumed = Some c, calorieGoal = Some g,
              percentage = pc\<rparr>))
           = Some (Num (of_int \<lfloor>x + 1 / 2\<rfloor>))"
    if v: "truthy_id (Some uid)" "truthy_num (Some c)" "truthy_num (Some g)"
      and p: "percentageCalc percent_of pc c g = Num x" for pc x
    by (simp only: answered_valid [OF v] p Math_round.simps title_of_integer)
  have f100: "\<lfloor>(100::rat) + 1 / 2\<rfloor> = 100" by linarith
  have f749: "\<lfloor>(749::rat) / 10 + 1 / 2\<rfloor> = 75" by linarith
  have f49: "\<lfloor>(49::rat) + 1 / 2\<rfloor> = 49" by linarith
  have ex: "answered_title (snd (sendCalorieAchievement percent_of e w
             \<lparr>body_userId = Some uid, caloriesConsumed = Some c, calorieGoal = Some g,
              percentage = Some (Num 100)\<rparr>)) = Some Goal_Achieved
         \<and> answered_title (snd (sendCalorieAchievement percent_of e w
             \<lparr>body_userId = Some uid, caloriesConsumed = Some c, calorieGoal = Some g,
              percentage = Some (Num (749 / 10))\<rparr>)) = Some Almost_There
         \<and> answered_percentage (snd (sendCalorieAchievement percent_of e w
             \<lparr>body_userId = Some uid, caloriesConsumed = Some c, calorieGoal = Some g,
              percentage = Some (Num (749 / 10))\<rparr>)) = Some (Num 75)
         \<and> answered_title (snd (sendCalorieAchievement percent_of e w
             \<lparr>body_userId = Some uid, caloriesConsumed = Some c, calorieGoal = Some g,
              percentage = Some (Num 49)\<rparr>)) = Some Calorie_Update"
    if v: "truthy_id (Some uid)" "truthy_num (Some c)" "truthy_num (Some g)"
  proof -
    have p100: "percentageCalc percent_of (Some (Num 100)) c g = Num 100"
      and p749: "percentageCalc percent_of (Some (Num (749 / 10))) c g = Num (749 / 10)"
      and p49: "percentageCalc percent_of (Some (Num 49)) c g = Num 49"
      by (simp_all add: percentageCalc_given)
    from general [OF v p100, unfolded f100] general [OF v p749, unfolded f749]
      general [OF v p49, unfolded f49]
    show ?thesis by simp
  qed
  from general ex round_nearest [of x] show ?thesis by blast
qed

theorem calorie_tiers_witness:
  "truthy_id (Some (UNum 1)) \<and> truthy_num (Some (Num 1490)) \<and> truthy_num (Some (Num 2000))
   \<and> percentageCalc exact_percent None (Num 1490) (Num 2000) = Num (149 / 2)
   \<and> answered_title (snd (sendCalorieAchievement exact_percent calorie_env calorie_world
        \<lparr>body_userId = Some (UNum 1), caloriesConsumed = Some (Num 1490),
         calorieGoal = Some (Num 2000), percentage = None\<rparr>)) = Some Almost_There
   \<and> answered_percentage (snd (sendCalorieAchievement exact_percent calorie_env calorie_world
        \<lparr>body_userId = Some (UNum 1), caloriesConsumed = Some (Num 1490),
         calorieGoal = Some (Num 2000), percentage = None\<rparr>)) = Some (Num 75)
   \<and> answered_title (snd (sendCalorieAchievement exact_percent calorie_env calorie_world
        \<lparr>body_userId = Some (UNum 1), caloriesConsumed = Some (Num 1490),
         calorieGoal = Some (Num 2000), percentage = Some (Num 100)\<rparr>)) = Some Goal_Achieved"
proof -
  have v: "truthy_id (Some (UNum 1))" "truthy_num (Some (Num 1490))" "truthy_num (Some (Num 2000))"
    by simp_all
  have p: "percentageCalc exact_percent None (Num 1490) (Num 2000) = Num (149 / 2)"
    by (simp add: percentageCalc_def)
  have f: "\<lfloor>(149::rat) / 2 + 1 / 2\<rfloor> = 75" by linarith
  note t = calorie_tiers [of "UNum 1" "Num 1490" "Num 2000" exact_percent None "149 / 2"
             calorie_env calorie_world]
  from t v p
  have a: "answered_title (snd (sendCalorieAchievement exact_percent calorie_env calorie_world
        \<lparr>body_userId = Some (UNum 1), caloriesConsumed = Some (Num 1490),
         calorieGoal = Some (Num 2000), percentage = None\<rparr>))
       = Some (if 100 \<le> \<lfloor>(149::rat) / 2 + 1 / 2\<rfloor> then Goal_Achieved
               else if 75 \<le> \<lfloor>(149::rat) / 2 + 1 / 2\<rfloor> then Almost_There
               else if 50 \<le> \<lfloor>(149::rat) / 2 + 1 / 2\<rfloor> then Halfway_There
               else Calorie_Update)"
    by blast
  from t v p
  have b: "answered_percentage (snd (sendCalorieAchievement exact_percent calorie_env calorie_world
        \<lparr>body_userId = Some (UNum 1), caloriesConsumed = Some (Num 1490),
         calorieGoal = Some (Num 2000), percentage = None\<rparr>))
       = Some (Num (of_int \<lfloor>(149::rat) / 2 + 1 / 2\<rfloor>))"
    by blast
  from t v
  have c: "answered_title (snd (sendCalorieAchievement exact_percent calorie_env calorie_world
        \<lparr>body_userId = Some (UNum 1), caloriesConsumed = Some (Num 1490),
         calorieGoal = Some (Num 2000), percentage = Some (Num 100)\<rparr>)) = Some Goal_Achieved"
    by blast
  from v p c show ?thesis
    unfolding a b f by simp
qed

text \<open>
  C8. A failed write of the snapshot is swallowed and the map in memory is what counts.
  When \<^verbatim>\<open>fs.writeFile\<close> throws, \<^verbatim>\<open>saveSubscriptions\<close> returns with the map as it was.
  \<^verbatim>\<open>subscribeUser\<close> then leaves the user's list with the new subscription appended when
  the endpoint was new, and the map as it was otherwise, and answers whether the
  endpoint was new. \<^verbatim>\<open>unsubscribeUser\<close> leaves the user's list without the
  subscriptions of that endpoint and answers whether there was one. \<^verbatim>\<open>unsubscribeAll\<close>
  leaves the map without the user's entry and answers whether there was an entry. The
  lists of all other users stay as they were, and map and answer are those of any other
  environment \<open>e'\<close>, one where the write succeeds, say.
\<close>

theorem persistence_failure_swallowed:
  assumes "\<not> fs_write_ok e (writes s)"
  shows "fst (fs_writeFile e s content) \<noteq> None
    \<and> subscriptions (saveSubscriptions e s) = subscriptions s
    \<and> subscriptions (fst (subscribeUser e s u sub))
        = (if endpoint sub \<notin> endpoint ` set (getSubscriptions s u)
           then Map_set (subscriptions s) u (getSubscriptions s u @ [sub])
           else subscriptions s)
    \<and> getSubscriptions (fst (subscribeUser e s u sub)) v
        = (if v = u \<and> endpoint sub \<notin> endpoint ` set (getSubscriptions s u)
           then getSubscriptions s u @ [sub] else getSubscriptions s v)
    \<and> snd (subscribeUser e s u sub) = (endpoint sub \<notin> endpoint ` set (getSubscriptions s u))
    \<and> subscriptions (fst (unsubscribeUser e s u ep))
        = (if Map_has (subscriptions s) u
           then Map_set (subscriptions s) u (filter (\<lambda>x. endpoint x \<noteq> ep) (getSubscriptions s u))
           else subscriptions s)
    \<and> getSubscriptions (fst (unsubscribeUser e s u ep)) v
        = (if v = u then filter (\<lambda>x. endpoint x \<noteq> ep) (getSubscriptions s u)
           else getSubscriptions s v)
    \<and> snd (unsubscribeUser e s u ep) = (ep \<in> endpoint ` set (getSubscriptions s u))
    \<and> subscriptions (fst (unsubscribeAll e s u))
        = (if Map_has (subscriptions s) u then Map_delete (subscriptions s) u else subscriptions s)
    \<and> \<not> Map_has (subscriptions (fst (unsubscribeAll e s u))) u
    \<and> getSubscriptions (fst (unsubscribeAll e s u)) v
        = (if v = u then [] else getSubscriptions s v)
    \<and> snd (unsubscribeAll e s u) = Map_has (subscriptions s) u
    \<and> subscriptions (fst (subscribeUser e s u sub)) = subscriptions (fst (subscribeUser e' s u sub))
    \<and> snd (subscribeUser e s u sub) = snd (subscribeUser e' s u sub)
    \<and> subscriptions (fst (unsubscribeUser e s u ep)) = subscriptions (fst (unsubscribeUser e' s u ep))
    \<and> snd (unsubscribeUser e s u ep) = snd (unsubscribeUser e' s u ep)
    \<and> subscriptions (fst (unsubscribeAll e s u)) = subscriptions (fst (unsubscribeAll e' s u))
    \<and> snd (unsubscribeAll e s u) = snd (unsubscribeAll e' s u)"
proof -
  have thrown: "fst (fs_writeFile e s content) \<noteq> None"
    using assms by (simp add: fs_writeFile_def)
  have s1: "subscriptions (fst (subscribeUser e0 s u sub))
        = (if endpoint sub \<notin> endpoint ` set (getSubscriptions s u)
           then Map_set (subscriptions s) u (getSubscriptions s u @ [sub])
           else subscriptions s)" for e0 :: "'a env"
    by (rule subscriptions_subscribeUser)
  have s2: "snd (subscribeUser e0 s u sub) = (endpoint sub \<notin> endpoint ` set (getSubscriptions s u))"
    for e0 :: "'a env"
    by (simp add: subscribeUser_eq)
  have u1: "subscriptions (fst (unsubscribeUser e0 s u ep))
        = (if Map_has (subscriptions s) u
           then Map_set (subscriptions s) u (filter (\<lambda>x. endpoint x \<noteq> ep) (getSubscriptions s u))
           else subscriptions s)" for e0 :: "'a env"
    by (rule subscriptions_unsubscribeUser)
  have u2: "snd (unsubscribeUser e0 s u ep) = (ep \<in> endpoint ` set (getSubscriptions s u))"
    for e0 :: "'a env"
    by (rule snd_unsubscribeUser)
  have a1: "subscriptions (fst (unsubscribeAll e0 s u))
        = (if Map_has (subscriptions s) u then Map_delete (subscriptions s) u else subscriptions s)"
    for e0 :: "'a env"
    by (rule unsubscribeAll_result(1))
  have a2: "snd (unsubscribeAll e0 s u) = Map_has (subscriptions s) u" for e0 :: "'a env"
    by (rule unsubscribeAll_result(2))
  have same: "subscriptions (fst (subscribeUser e s u sub)) = subscriptions (fst (subscribeUser e' s u sub))
    \<and> snd (subscribeUser e s u sub) = snd (subscribeUser e' s u sub)
    \<and> subscriptions (fst (unsubscribeUser e s u ep)) = subscriptions (fst (unsubscribeUser e' s u ep))
    \<and> snd (unsubscribeUser e s u ep) = snd (unsubscribeUser e' s u ep)
    \<and> subscriptions (fst (unsubscribeAll e s u)) = subscriptions (fst (unsubscribeAll e' s u))
    \<and> snd (unsubscribeAll e s u) = snd (unsubscribeAll e' s u)"
    by (simp only: subscriptions_subscribeUser snd_subscribeUser subscriptions_unsubscribeUser
          snd_unsubscribeUser unsubscribeAll_result)
  from thrown subscriptions_saveSubscriptions [of e s] s1 [of e]
    getSubscriptions_subscribeUser [of e s u sub v] s2 [of e] u1 [of e]
    getSubscriptions_unsubscribeUser [of e s u ep v] u2 [of e] a1 [of e]
    Map_has_unsubscribeAll [of e s u] getSubscriptions_unsubscribeAll [of e s u v] a2 [of e] same
  show ?thesis by blast
qed

theorem persistence_failure_swallowed_witness:
  "\<not> fs_write_ok env_disk_full (writes wps_one_user)
   \<and> fst (fs_writeFile env_disk_full wps_one_user []) \<noteq> None
   \<and> subscriptions (fst (subscribeUser env_disk_full wps_one_user (UNum 1) sub_b))
       = [(UNum 1, [sub_a, sub_b])]
   \<and> snd (subscribeUser env_disk_full wps_one_user (UNum 1) sub_b) = True
   \<and> subscriptions (fst (unsubscribeUser env_disk_full wps_one_user (UNum 1) (endpoint sub_a)))
       = [(UNum 1, [])]
   \<and> snd (unsubscribeUser env_disk_full wps_one_user (UNum 1) (endpoint sub_a)) = True
   \<and> subscriptions (fst (unsubscribeAll env_disk_full wps_one_user (UNum 1))) = []
   \<and> getSubscriptions (fst (unsubscribeAll env_disk_full wps_one_user (UNum 1))) (UNum 1) = []
   \<and> snd (unsubscribeAll env_disk_full wps_one_user (UNum 1)) = True"
proof -
  have h: "\<not> fs_write_ok env_disk_full (writes wps_one_user)"
    by (simp add: env_disk_full_def)
  have m: "Map_has (subscriptions wps_one_user) (UNum 1)"
    by (simp add: wps_one_user_fields Map_has_def)
  note t = persistence_failure_swallowed [OF h, of "[]" "UNum 1" sub_b "UNum 1" "endpoint sub_a"
             env_b_gone]
  from t have w: "fst (fs_writeFile env_disk_full wps_one_user []) \<noteq> None"
    by blast
  from t have a: "subscriptions (fst (subscribeUser env_disk_full wps_one_user (UNum 1) sub_b))
        = (if endpoint sub_b \<notin> endpoint ` set (getSubscriptions wps_one_user (UNum 1))
           then Map_set (subscriptions wps_one_user) (UNum 1)
                  (getSubscriptions wps_one_user (UNum 1) @ [sub_b])
           else subscriptions wps_one_user)"
    by blast
  from t have b: "snd (subscribeUser env_disk_full wps_one_user (UNum 1) sub_b)
                    = (endpoint sub_b \<notin> endpoint ` set (getSubscriptions wps_one_user (UNum 1)))"
    by blast
  from t have c: "subscriptions (fst (unsubscribeUser env_disk_full wps_one_user (UNum 1) (endpoint sub_a)))
        = (if Map_has (subscriptions wps_one_user) (UNum 1)
           then Map_set (subscriptions wps_one_user) (UNum 1)
                  (filter (\<lambda>x. endpoint x \<noteq> endpoint sub_a) (getSubscriptions wps_one_user (UNum 1)))
           else subscriptions wps_one_user)"
    by blast
  from t have d: "snd (unsubscribeUser env_disk_full wps_one_user (UNum 1) (endpoint sub_a))
                    = (endpoint sub_a \<in> endpoint ` set (getSubscriptions wps_one_user (UNum 1)))"
    by blast
  from t have f: "subscriptions (fst (unsubscribeAll env_disk_full wps_one_user (UNum 1)))
        = (if Map_has (subscriptions wps_one_user) (UNum 1)
           then Map_delete (subscriptions wps_one_user) (UNum 1) else subscriptions wps_one_user)"
    by blast
  from t have g: "getSubscriptions (fst (unsubscribeAll env_disk_full wps_one_user (UNum 1))) (UNum 1)
        = (if UNum 1 = UNum 1 then [] else getSubscriptions wps_one_user (UNum 1))"
    by blast
  from t have k: "snd (unsubscribeAll env_disk_full wps_one_user (UNum 1))
                    = Map_has (subscriptions wps_one_user) (UNum 1)"
    by blast
  show ?thesis
    unfolding a b c d f g k
    using h w m
    by (simp add: getSubscriptions_wps_one_user wps_one_user_fields Map_set_def Map_delete_def)
qed

text \<open>
  C9. User 1, known to the service by the number 1 as the scheduler knows every user,
  has one subscription. The snapshot is written successfully and read back. The map
  read back has the key \<open>"1"\<close>, a string, and \<^verbatim>\<open>getSubscriptions\<close> for the number 1 is
  empty.
\<close>

theorem restart_loses_numeric_user:
  "fs_write_ok env_b_gone (writes wps_one_user)
   \<and> getSubscriptions wps_one_user (UNum 1) = [sub_a]
   \<and> getSubscriptions (loadSubscriptions (saveSubscriptions env_b_gone wps_one_user)) (UNum 1) = []
   \<and> subscriptions (loadSubscriptions (saveSubscriptions env_b_gone wps_one_user))
       = [(UStr ''1'', [sub_a])]"
proof -
  have k: "ToPropertyKey (UNum 1) = ''1''"
    by (simp add: string_of_int_def string_of_nat.simps digit_char_def)
  have i: "isArrayIndex ''1''"
    by (simp add: isArrayIndex_def is_digit_def dec_value_def digit_value_def)
  have s: "saveSubscriptions env_b_gone wps_one_user
             = wps_one_user\<lparr>snapshot_file := Some [(''1'', [sub_a])], writes := 1\<rparr>"
    by (simp add: saveSubscriptions_def fs_writeFile_def wps_one_user_fields env_b_gone_def
          Object_fromEntries_def Object_set_def Object_entries_def k i del: ToPropertyKey.simps)
  have l: "subscriptions (loadSubscriptions (saveSubscriptions env_b_gone wps_one_user))
             = [(UStr ''1'', [sub_a])]"
    by (simp add: s loadSubscriptions_def Object_entries_def i)
  have g: "getSubscriptions (loadSubscriptions (saveSubscriptions env_b_gone wps_one_user)) (UNum 1)
             = []"
    by (simp add: getSubscriptions_def Map_get_def l)
  have ok: "fs_write_ok env_b_gone (writes wps_one_user)"
    by (simp add: env_b_gone_def)
  from ok getSubscriptions_wps_one_user g l show ?thesis by blast
qed

text \<open>
  C10. For every id that a template literal can turn into text (every number, every
  string, and every object or array with a conversion to a primitive) and every
  payload, \<^verbatim>\<open>sendNotificationToUser\<close> returns without throwing, whatever the registry,
  the files and the outside world do; so \<^verbatim>\<open>sendCustomNotification\<close> answers
  \<open>{success: true, message: 'Notification sent'}\<close>. For an object without a conversion
  to a primitive the \<^verbatim>\<open>catch\<close> of \<^verbatim>\<open>sendNotificationToUser\<close> throws in its turn, and
  \<^verbatim>\<open>sendCustomNotification\<close> answers \<open>success: false\<close>.
\<close>

theorem sendCustomNotification_succeeds_for_convertible_ids:
  "(template_userId uid = None \<longrightarrow>
      snd (sendCustomNotification_js e w uid payload)
        = \<lparr>success = True, message = Some ''Notification sent'', error = None\<rparr>
      \<and> (\<exists>w'. sendNotificationToUser_js e w uid payload = Inr w'))
   \<and> snd (sendCustomNotification_js e w (Prim userId) payload)
       = \<lparr>success = True, message = Some ''Notification sent'', error = None\<rparr>
   \<and> snd (sendCustomNotification e w userId payload)
       = \<lparr>success = True, message = Some ''Notification sent'', error = None\<rparr>
   \<and> (\<exists>w'. sendNotificationToUser e w userId payload = Inr w')
   \<and> (template_userId uid \<noteq> None \<longrightarrow>
        \<not> success (snd (sendCustomNotification_js e w uid payload)))"
proof -
  have conv: "snd (sendCustomNotification_js e w i payload)
        = \<lparr>success = True, message = Some ''Notification sent'', error = None\<rparr>
      \<and> (\<exists>w'. sendNotificationToUser_js e w i payload = Inr w')"
    if c: "template_userId i = None" for i
  proof -
    have "\<exists>w'. sendNotificationToUser_js e w i payload = Inr w'"
      using c by (rule sendNotificationToUser_js_convertible)
    then obtain w' where r: "sendNotificationToUser_js e w i payload = Inr w'" ..
    then show ?thesis by (simp add: sendCustomNotification_js_def)
  qed
  have prim: "snd (sendCustomNotification_js e w (Prim userId) payload)
       = \<lparr>success = True, message = Some ''Notification sent'', error = None\<rparr>"
    using conv [of "Prim userId"] by simp
  have typed: "snd (sendCustomNotification e w userId payload)
       = \<lparr>success = True, message = Some ''Notification sent'', error = None\<rparr>"
    using prim by (simp add: sendCustomNotification_js_Prim)
  have ret: "\<exists>w'. sendNotificationToUser e w userId payload = Inr w'"
    by (rule sendNotificationToUser_Inr)
  have unconv: "\<not> success (snd (sendCustomNotification_js e w i payload))"
    if c: "template_userId i \<noteq> None" for i
  proof -
    from c have "i = Object None"
      by (cases i rule: template_userId.cases) simp_all
    then show ?thesis
      by (simp add: sendCustomNotification_js_def sendNotificationToUser_js_unconvertible)
  qed
  from conv [of uid] prim typed ret unconv [of uid] show ?thesis by blast
qed

theorem sendCustomNotification_succeeds_for_convertible_ids_witness:
  "template_userId (Object (Some ''[object Object]'')) = None
   \<and> snd (sendCustomNotification_js (env_at 12 0) world3_numeric
            (Object (Some ''[object Object]'')) ''hello'')
       = \<lparr>success = True, message = Some ''Notification sent'', error = None\<rparr>
   \<and> sendNotificationToUser_try (env_at 12 0) world3_numeric (UNum 2) ''hello''
       = Inl (TypeError ''timeStr.split is not a function'')
   \<and> snd (sendCustomNotification (env_at 12 0) world3_numeric (UNum 2) ''hello'')
       = \<lparr>success = True, message = Some ''Notification sent'', error = None\<rparr>
   \<and> template_userId (Object None) \<noteq> None
   \<and> \<not> success (snd (sendCustomNotification_js (env_at 12 0) world3_numeric (Object None) ''hello''))"
proof -
  have c: "template_userId (Object (Some ''[object Object]'')) = None"
    by simp
  have n: "template_userId (Object None) \<noteq> None"
    by simp
  note t1 = sendCustomNotification_succeeds_for_convertible_ids
              [of "Object (Some ''[object Object]'')" "env_at 12 0" world3_numeric "''hello''" "UNum 2"]
  note t2 = sendCustomNotification_succeeds_for_convertible_ids
              [of "Object None" "env_at 12 0" world3_numeric "''hello''" "UNum 2"]
  from t1 c have a: "snd (sendCustomNotification_js (env_at 12 0) world3_numeric
            (Object (Some ''[object Object]'')) ''hello'')
       = \<lparr>success = True, message = Some ''Notification sent'', error = None\<rparr>"
    by blast
  from t1 have b: "snd (sendCustomNotification (env_at 12 0) world3_numeric (UNum 2) ''hello'')
       = \<lparr>success = True, message = Some ''Notification sent'', error = None\<rparr>"
    by blast
  from t2 n
  have d: "\<not> success (snd (sendCustomNotification_js (env_at 12 0) world3_numeric (Object None) ''hello''))"
    by blast
  from c a user2_numeric_throws [of "env_at 12 0" "''hello''"] b n d show ?thesis by blast
qed

text \<open>
  The claim as written has \<open>success: true\<close> for every id. For an id without a conversion
  to a primitive, the object \<^verbatim>\<open>{"toString": null}\<close> of a request body, say, the
  answer is \<open>success: false\<close> with the message of the \<^verbatim>\<open>TypeError\<close>.
\<close>

theorem sendCustomNotification_unconvertible_id_counterexample:
  "snd (sendCustomNotification_js (env_at 12 0) world3 (Object None) ''hello'')
     = \<lparr>success = False, message = None,
        error = Some ''Cannot convert object to primitive value''\<rparr>
   \<and> \<not> (snd (sendCustomNotification_js (env_at 12 0) world3 (Object None) ''hello'')
          = \<lparr>success = True, message = Some ''Notification sent'', error = None\<rparr>)"
  by (simp add: sendCustomNotification_js_def sendNotificationToUser_js_unconvertible)

end
